theory Spec2Isabelle
  imports Complex_Main "HOL-Library.Log_Nat"
begin

section \<open>Errors raised during construction\<close>

text \<open>
  Every \<^verbatim>\<open>raise\<close> of \<^verbatim>\<open>nets/resnet.py\<close>, and every exception the Python
  operators used there can raise, is a value of this type. A function that can raise
  returns \<open>error + 'a\<close>, with \<open>Inl\<close> for the exception.
\<close>

datatype error =
    BasicBlock_ValueError
      \<comment> \<open>ValueError('BasicBlock only supports groups=1 and base_width=64')\<close>
  | Dilation_NotImplementedError
      \<comment> \<open>NotImplementedError("Dilation > 1 not supported in BasicBlock")\<close>
  | Replace_stride_ValueError "bool list"
      \<comment> \<open>ValueError("replace_stride_with_dilation should be None or a 3-element tuple,
          got ..."), carrying the rejected value\<close>
  | IndexError
      \<comment> \<open>\<^verbatim>\<open>layers[i]\<close> or \<^verbatim>\<open>replace_stride_with_dilation[i]\<close> out of range\<close>
  | OverflowError
      \<comment> \<open>an int too large for a float, or \<^verbatim>\<open>int()\<close> of an infinite float\<close>
  | ZeroDivisionError
  | LoadError string
      \<comment> \<open>whatever the external state-dict loader raises\<close>

section \<open>Python floats\<close>

text \<open>
  \<^verbatim>\<open>Bottleneck.__init__\<close> computes \<^verbatim>\<open>int(planes * (base_width / 64.))\<close> and
  \<^verbatim>\<open>GhostModule.__init__\<close> computes \<^verbatim>\<open>math.ceil(oup / ratio)\<close>: both go through
  IEEE-754 binary64 values. A finite float is modelled by the rational number it denotes;
  each operation computes the exact rational result and rounds it to the nearest
  binary64 value, ties to even (53 significant bits, least exponent \<open>-1022\<close>, so that
  subnormal values are the multiples of \<open>2 powi -1074\<close>). A result of magnitude
  \<open>2 ^ 1024\<close> or more after rounding is an infinity. NaN never arises in the two
  expressions above, and the sign of zero does not matter to \<^verbatim>\<open>int\<close> or
  \<^verbatim>\<open>math.ceil\<close>.
\<close>

datatype pyfloat = Finite rat | PosInf | NegInf

definition ilog2 :: "rat \<Rightarrow> int" where
  \<comment> \<open>\<open>\<lfloor>log 2 x\<rfloor>\<close> for \<open>x > 0\<close>\<close>
  "ilog2 x = (if 1 \<le> x then bitlen \<lfloor>x\<rfloor> - 1 else - bitlen (\<lceil>1 / x\<rceil> - 1))"

definition round_half_even :: "rat \<Rightarrow> int" where
  "round_half_even q =
     (let f = \<lfloor>q\<rfloor>; d = q - of_int f
      in if d < 1 / 2 then f
         else if 1 / 2 < d then f + 1
         else if even f then f else f + 1)"

definition round_to_double :: "rat \<Rightarrow> pyfloat" where
  "round_to_double x =
     (if x = 0 then Finite 0
      else
        let e = max (ilog2 \<bar>x\<bar>) (- 1022);
            u = 2 powi (e - 52);
            r = of_int (round_half_even (x / u)) * u
        in if 2 ^ 1024 \<le> r then PosInf
           else if r \<le> - (2 ^ 1024) then NegInf
           else Finite r)"

definition float_of_int :: "int \<Rightarrow> error + pyfloat" where
  \<comment> \<open>the conversion of an int operand in mixed int/float arithmetic: OverflowError
      ("int too large to convert to float") instead of an infinity\<close>
  "float_of_int n =
     (case round_to_double (of_int n) of
        Finite r \<Rightarrow> Inr (Finite r)
      | _ \<Rightarrow> Inl OverflowError)"

fun float_mul :: "pyfloat \<Rightarrow> pyfloat \<Rightarrow> pyfloat" where
  \<comment> \<open>the product of two finite floats; the other cases are never reached\<close>
  "float_mul (Finite a) (Finite b) = round_to_double (a * b)"
| "float_mul a b = a"

fun float_div :: "pyfloat \<Rightarrow> pyfloat \<Rightarrow> error + pyfloat" where
  "float_div (Finite a) (Finite b) =
     (if b = 0 then Inl ZeroDivisionError else Inr (round_to_double (a / b)))"
| "float_div a b = Inr a"


fun py_int :: "pyfloat \<Rightarrow> error + int" where
  \<comment> \<open>\<^verbatim>\<open>int(x)\<close>: truncation towards zero\<close>
  "py_int (Finite r) = Inr (if 0 \<le> r then \<lfloor>r\<rfloor> else \<lceil>r\<rceil>)"
| "py_int _ = Inl OverflowError"


section \<open>Layers of the library\<close>

text \<open>
  \<^verbatim>\<open>nn.Conv2d\<close>, \<^verbatim>\<open>nn.BatchNorm2d\<close> and \<^verbatim>\<open>nn.Linear\<close> belong to
  the library. A layer is modelled by the arguments it was created with and by the
  \<^verbatim>\<open>requires_grad\<close> flag of each of its parameter tensors, which the library sets
  to \<^verbatim>\<open>True\<close> on creation. Every convolution of this file is created with
  \<^verbatim>\<open>bias=False\<close>, so its only parameter is the weight. A normalization layer is
  created with scale 1 and bias 0 in every channel; the model keeps the one value that
  fills the tensor. The random values of convolution and linear weights, and the
  library's own validation of layer arguments, are not modelled.
\<close>

record Conv2d =
  in_channels :: int
  out_channels :: int
  kernel_size :: int
  conv_stride :: int
  padding :: int
  conv_dilation :: int
  conv_groups :: int
  weight_requires_grad :: bool

record BatchNorm2d =
  num_features :: int
  bn_weight :: int
  bn_bias :: int
  bn_weight_requires_grad :: bool
  bn_bias_requires_grad :: bool

record Linear =
  in_features :: int
  out_features :: int
  fc_weight_requires_grad :: bool
  fc_bias_requires_grad :: bool

definition Conv2d_new :: "int \<Rightarrow> int \<Rightarrow> int \<Rightarrow> int \<Rightarrow> int \<Rightarrow> int \<Rightarrow> int \<Rightarrow> Conv2d" where
  \<comment> \<open>\<^verbatim>\<open>nn.Conv2d(in_channels, out_channels, kernel_size, stride, padding, dilation,
      groups, bias=False)\<close>\<close>
  "Conv2d_new cin cout k s p d g =
     \<lparr>in_channels = cin, out_channels = cout, kernel_size = k, conv_stride = s,
      padding = p, conv_dilation = d, conv_groups = g, weight_requires_grad = True\<rparr>"

definition BatchNorm2d_new :: "int \<Rightarrow> BatchNorm2d" where
  "BatchNorm2d_new n =
     \<lparr>num_features = n, bn_weight = 1, bn_bias = 0,
      bn_weight_requires_grad = True, bn_bias_requires_grad = True\<rparr>"

definition Linear_new :: "int \<Rightarrow> int \<Rightarrow> Linear" where
  "Linear_new i out =
     \<lparr>in_features = i, out_features = out,
      fc_weight_requires_grad = True, fc_bias_requires_grad = True\<rparr>"

definition conv3x3 :: "int \<Rightarrow> int \<Rightarrow> int \<Rightarrow> int \<Rightarrow> int \<Rightarrow> Conv2d" where
  \<comment> \<open>\<^verbatim>\<open>conv3x3(in_planes, out_planes, stride=1, groups=1, dilation=1)\<close>\<close>
  "conv3x3 in_planes out_planes stride groups dilation =
     Conv2d_new in_planes out_planes 3 stride dilation dilation groups"

definition conv1x1 :: "int \<Rightarrow> int \<Rightarrow> int \<Rightarrow> Conv2d" where
  \<comment> \<open>\<^verbatim>\<open>conv1x1(in_planes, out_planes, stride=1)\<close>\<close>
  "conv1x1 in_planes out_planes stride = Conv2d_new in_planes out_planes 1 stride 0 1 1"

text \<open>
  The weight of a convolution is a tensor, and the library creates no tensor of
  \<open>2 ^ 63\<close> or more elements: its sizes are signed 64-bit integers.
\<close>

definition Conv2d_weight_numel :: "Conv2d \<Rightarrow> int" where
  \<comment> \<open>the number of elements of the weight, of shape
      \<^verbatim>\<open>(out_channels, in_channels // groups, kernel_size, kernel_size)\<close>\<close>
  "Conv2d_weight_numel c =
     out_channels c * (in_channels c div conv_groups c) * kernel_size c * kernel_size c"

section \<open>The two residual blocks\<close>

text \<open>
  The class passed as \<^verbatim>\<open>block\<close> is a value of \<open>block_template\<close>; an instance is
  a \<open>Block\<close>. The shortcut \<^verbatim>\<open>downsample\<close> is \<^verbatim>\<open>None\<close> or the pair
  \<^verbatim>\<open>nn.Sequential(conv1x1(...), norm_layer(...))\<close>. The normalization factory
  \<^verbatim>\<open>norm_layer\<close> is the default, \<^verbatim>\<open>nn.BatchNorm2d\<close>, throughout.
\<close>

datatype block_template = BasicBlock | Bottleneck

fun expansion :: "block_template \<Rightarrow> int" where
  "expansion BasicBlock = 1"
| "expansion Bottleneck = 4"

type_synonym Downsample = "Conv2d \<times> BatchNorm2d"

datatype Block =
    BasicBlock_instance
      (blk_conv1: Conv2d) (blk_bn1: BatchNorm2d)
      (blk_conv2: Conv2d) (blk_bn2: BatchNorm2d)
      (blk_downsample: "Downsample option") (blk_stride: int)
  | Bottleneck_instance
      (blk_conv1: Conv2d) (blk_bn1: BatchNorm2d)
      (blk_conv2: Conv2d) (blk_bn2: BatchNorm2d)
      (blk_conv3: Conv2d) (blk_bn3: BatchNorm2d)
      (blk_downsample: "Downsample option") (blk_stride: int)

definition BasicBlock_init ::
  "int \<Rightarrow> int \<Rightarrow> int \<Rightarrow> Downsample option \<Rightarrow> int \<Rightarrow> int \<Rightarrow> int \<Rightarrow> error + Block" where
  "BasicBlock_init inplanes planes stride downsample groups base_width dilation =
     (if groups \<noteq> 1 \<or> base_width \<noteq> 64 then Inl BasicBlock_ValueError
      else if dilation > 1 then Inl Dilation_NotImplementedError
      else Inr (BasicBlock_instance
                  (conv3x3 inplanes planes stride 1 1) (BatchNorm2d_new planes)
                  (conv3x3 planes planes 1 1 1) (BatchNorm2d_new planes)
                  downsample stride))"

definition Bottleneck_width :: "int \<Rightarrow> int \<Rightarrow> int \<Rightarrow> error + int" where
  \<comment> \<open>\<^verbatim>\<open>width = int(planes * (base_width / 64.)) * groups\<close>\<close>
  "Bottleneck_width planes base_width groups =
     (case float_of_int base_width of
        Inl e \<Rightarrow> Inl e
      | Inr bw \<Rightarrow>
          (case float_div bw (Finite 64) of
             Inl e \<Rightarrow> Inl e
           | Inr q \<Rightarrow>
               (case float_of_int planes of
                  Inl e \<Rightarrow> Inl e
                | Inr p \<Rightarrow>
                    (case py_int (float_mul p q) of
                       Inl e \<Rightarrow> Inl e
                     | Inr w \<Rightarrow> Inr (w * groups)))))"

definition Bottleneck_init ::
  "int \<Rightarrow> int \<Rightarrow> int \<Rightarrow> Downsample option \<Rightarrow> int \<Rightarrow> int \<Rightarrow> int \<Rightarrow> error + Block" where
  "Bottleneck_init inplanes planes stride downsample groups base_width dilation =
     (case Bottleneck_width planes base_width groups of
        Inl e \<Rightarrow> Inl e
      | Inr width \<Rightarrow>
          Inr (Bottleneck_instance
                 (conv1x1 inplanes width 1) (BatchNorm2d_new width)
                 (conv3x3 width width stride groups dilation) (BatchNorm2d_new width)
                 (conv1x1 width (planes * expansion Bottleneck) 1)
                 (BatchNorm2d_new (planes * expansion Bottleneck))
                 downsample stride))"

fun construct ::
  "block_template \<Rightarrow> int \<Rightarrow> int \<Rightarrow> int \<Rightarrow> Downsample option \<Rightarrow> int \<Rightarrow> int \<Rightarrow> int
     \<Rightarrow> error + Block" where
  \<comment> \<open>the call \<^verbatim>\<open>block(inplanes, planes, stride, downsample, groups, base_width,
      dilation, norm_layer)\<close>\<close>
  "construct BasicBlock = BasicBlock_init"
| "construct Bottleneck = Bottleneck_init"

section \<open>The stage builder\<close>

text \<open>
  \<^verbatim>\<open>ResNet._make_layer\<close> reads and updates four attributes of the network under
  construction; they are the record \<open>builder\<close>, passed in and returned.
\<close>

record builder =
  inplanes :: int
  dilation :: int
  groups :: int
  base_width :: int

fun identity_blocks :: "nat \<Rightarrow> block_template \<Rightarrow> builder \<Rightarrow> int \<Rightarrow> error + Block list" where
  \<comment> \<open>the loop \<^verbatim>\<open>for _ in range(1, blocks)\<close>, by the number of its iterations\<close>
  "identity_blocks 0 block self planes = Inr []"
| "identity_blocks (Suc k) block self planes =
     (case construct block (inplanes self) planes 1 None (groups self) (base_width self)
             (dilation self) of
        Inl e \<Rightarrow> Inl e
      | Inr b \<Rightarrow>
          (case identity_blocks k block self planes of
             Inl e \<Rightarrow> Inl e
           | Inr bs \<Rightarrow> Inr (b # bs)))"

definition make_layer ::
  "builder \<Rightarrow> block_template \<Rightarrow> int \<Rightarrow> int \<Rightarrow> int \<Rightarrow> bool \<Rightarrow> error + (Block list \<times> builder)" where
  "make_layer self block planes blocks stride dilate =
     (let previous_dilation = dilation self;
          self1 = (if dilate then self\<lparr>dilation := dilation self * stride\<rparr> else self);
          stride1 = (if dilate then 1 else stride);
          downsample =
            (if stride1 \<noteq> 1 \<or> inplanes self1 \<noteq> planes * expansion block
             then Some (conv1x1 (inplanes self1) (planes * expansion block) stride1,
                        BatchNorm2d_new (planes * expansion block))
             else None)
      in case construct block (inplanes self1) planes stride1 downsample (groups self1)
                (base_width self1) previous_dilation of
           Inl e \<Rightarrow> Inl e
         | Inr b \<Rightarrow>
             (let self2 = self1\<lparr>inplanes := planes * expansion block\<rparr>
              in case identity_blocks (nat (blocks - 1)) block self2 planes of
                   Inl e \<Rightarrow> Inl e
                 | Inr bs \<Rightarrow> Inr (b # bs, self2)))"

section \<open>The network assembler\<close>

record ResNet =
  self_builder :: builder
  block :: block_template
  conv1 :: Conv2d
  bn1 :: BatchNorm2d
  layer1 :: "Block list"
  layer2 :: "Block list"
  layer3 :: "Block list"
  layer4 :: "Block list"
  fc :: Linear

definition and_then :: "error + 'a \<Rightarrow> ('a \<Rightarrow> error + 'b) \<Rightarrow> error + 'b" where
  \<comment> \<open>sequencing: an exception raised by the first step ends the construction\<close>
  "and_then m f = (case m of Inl e \<Rightarrow> Inl e | Inr x \<Rightarrow> f x)"

definition getitem :: "'a list \<Rightarrow> nat \<Rightarrow> error + 'a" where
  \<comment> \<open>\<^verbatim>\<open>xs[i]\<close> for a constant index \<open>i \<ge> 0\<close>\<close>
  "getitem xs i = (if i < length xs then Inr (xs ! i) else Inl IndexError)"

definition init_norm :: "BatchNorm2d \<Rightarrow> BatchNorm2d" where
  \<comment> \<open>\<^verbatim>\<open>nn.init.constant_(m.weight, 1); nn.init.constant_(m.bias, 0)\<close>\<close>
  "init_norm m = m\<lparr>bn_weight := 1, bn_bias := 0\<rparr>"

definition init_downsample :: "Downsample option \<Rightarrow> Downsample option" where
  "init_downsample d = map_option (\<lambda>(c, n). (c, init_norm n)) d"

fun init_block :: "Block \<Rightarrow> Block" where
  \<comment> \<open>the first initialization loop, on the normalization layers inside a block\<close>
  "init_block (BasicBlock_instance c1 n1 c2 n2 d s) =
     BasicBlock_instance c1 (init_norm n1) c2 (init_norm n2) (init_downsample d) s"
| "init_block (Bottleneck_instance c1 n1 c2 n2 c3 n3 d s) =
     Bottleneck_instance c1 (init_norm n1) c2 (init_norm n2) c3 (init_norm n3)
       (init_downsample d) s"

fun zero_init_block :: "Block \<Rightarrow> Block" where
  \<comment> \<open>\<^verbatim>\<open>if isinstance(m, Bottleneck): nn.init.constant_(m.bn3.weight, 0)\<close>\<close>
  "zero_init_block (Bottleneck_instance c1 n1 c2 n2 c3 n3 d s) =
     Bottleneck_instance c1 n1 c2 n2 c3 (n3\<lparr>bn_weight := 0\<rparr>) d s"
| "zero_init_block b = b"

text \<open>
  \<^verbatim>\<open>ResNet.__init__\<close> builds the stem, the four stages and the head, then runs two
  loops over \<^verbatim>\<open>self.modules()\<close>. The first gives every convolution random weights,
  which are not modelled, and sets the scale of every normalization layer to 1 and its
  bias to 0: \<open>init_norm\<close> on the stem's normalization and \<open>init_block\<close> on every block.
  The second, under \<^verbatim>\<open>zero_init_residual\<close>, is \<open>zero_init_block\<close> on every block.
  The layers without parameters (ReLU, the two pools) are left out of the record.
\<close>

definition ResNet_init ::
  "block_template \<Rightarrow> int list \<Rightarrow> int \<Rightarrow> bool \<Rightarrow> int \<Rightarrow> int \<Rightarrow> bool list option
     \<Rightarrow> error + ResNet" where
  \<comment> \<open>\<^verbatim>\<open>ResNet(block, layers, num_classes, zero_init_residual, groups,
      width_per_group, replace_stride_with_dilation)\<close>\<close>
  "ResNet_init blk layers num_classes zero_init_residual grps width_per_group
       replace_stride_with_dilation =
     (let self0 = \<lparr>inplanes = 64, dilation = 1, groups = grps, base_width = width_per_group\<rparr>;
          rswd = (case replace_stride_with_dilation of
                    None \<Rightarrow> [False, False, False]
                  | Some xs \<Rightarrow> xs)
      in if length rswd \<noteq> 3 then Inl (Replace_stride_ValueError rswd)
         else
           let c1 = Conv2d_new 3 (inplanes self0) 7 2 3 1 1;
               n1 = BatchNorm2d_new (inplanes self0)
           in
           and_then (getitem layers 0) (\<lambda>k1.
           and_then (make_layer self0 blk 64 k1 1 False) (\<lambda>(l1, self1).
           and_then (getitem layers 1) (\<lambda>k2.
           and_then (getitem rswd 0) (\<lambda>d2.
           and_then (make_layer self1 blk 128 k2 2 d2) (\<lambda>(l2, self2).
           and_then (getitem layers 2) (\<lambda>k3.
           and_then (getitem rswd 1) (\<lambda>d3.
           and_then (make_layer self2 blk 256 k3 2 d3) (\<lambda>(l3, self3).
           and_then (getitem layers 3) (\<lambda>k4.
           and_then (getitem rswd 2) (\<lambda>d4.
           and_then (make_layer self3 blk 512 k4 2 d4) (\<lambda>(l4, self4).
             let head = Linear_new (512 * expansion blk) num_classes;
                 zero = (if zero_init_residual then zero_init_block else (\<lambda>b. b))
             in Inr \<lparr>self_builder = self4, block = blk, conv1 = c1, bn1 = init_norm n1,
                     layer1 = map (zero \<circ> init_block) l1,
                     layer2 = map (zero \<circ> init_block) l2,
                     layer3 = map (zero \<circ> init_block) l3,
                     layer4 = map (zero \<circ> init_block) l4,
                     fc = head\<rparr>))))))))))))"

subsection \<open>Freezing and unfreezing the backbone\<close>

definition Conv2d_set_grad :: "bool \<Rightarrow> Conv2d \<Rightarrow> Conv2d" where
  "Conv2d_set_grad g c = c\<lparr>weight_requires_grad := g\<rparr>"

definition BatchNorm2d_set_grad :: "bool \<Rightarrow> BatchNorm2d \<Rightarrow> BatchNorm2d" where
  "BatchNorm2d_set_grad g n = n\<lparr>bn_weight_requires_grad := g, bn_bias_requires_grad := g\<rparr>"

definition Downsample_set_grad :: "bool \<Rightarrow> Downsample option \<Rightarrow> Downsample option" where
  "Downsample_set_grad g d =
     map_option (\<lambda>(c, n). (Conv2d_set_grad g c, BatchNorm2d_set_grad g n)) d"

fun Block_set_grad :: "bool \<Rightarrow> Block \<Rightarrow> Block" where
  \<comment> \<open>\<^verbatim>\<open>for param in module.parameters(): param.requires_grad = g\<close> on a block\<close>
  "Block_set_grad g (BasicBlock_instance c1 n1 c2 n2 d s) =
     BasicBlock_instance (Conv2d_set_grad g c1) (BatchNorm2d_set_grad g n1)
       (Conv2d_set_grad g c2) (BatchNorm2d_set_grad g n2) (Downsample_set_grad g d) s"
| "Block_set_grad g (Bottleneck_instance c1 n1 c2 n2 c3 n3 d s) =
     Bottleneck_instance (Conv2d_set_grad g c1) (BatchNorm2d_set_grad g n1)
       (Conv2d_set_grad g c2) (BatchNorm2d_set_grad g n2)
       (Conv2d_set_grad g c3) (BatchNorm2d_set_grad g n3) (Downsample_set_grad g d) s"

definition backbone_set_grad :: "bool \<Rightarrow> ResNet \<Rightarrow> ResNet" where
  \<comment> \<open>the loop shared by \<^verbatim>\<open>freeze_backbone\<close> and \<^verbatim>\<open>Unfreeze_backbone\<close> over
      \<^verbatim>\<open>[self.conv1, self.bn1, self.layer1, self.layer2, self.layer3, self.layer4]\<close>\<close>
  "backbone_set_grad g self =
     self\<lparr>conv1 := Conv2d_set_grad g (conv1 self),
          bn1 := BatchNorm2d_set_grad g (bn1 self),
          layer1 := map (Block_set_grad g) (layer1 self),
          layer2 := map (Block_set_grad g) (layer2 self),
          layer3 := map (Block_set_grad g) (layer3 self),
          layer4 := map (Block_set_grad g) (layer4 self)\<rparr>"

definition freeze_backbone :: "ResNet \<Rightarrow> ResNet" where
  "freeze_backbone self = backbone_set_grad False self"

definition Unfreeze_backbone :: "ResNet \<Rightarrow> ResNet" where
  "Unfreeze_backbone self = backbone_set_grad True self"

text \<open>The \<^verbatim>\<open>requires_grad\<close> flags in the order of \<^verbatim>\<open>parameters()\<close>.\<close>

definition Conv2d_flags :: "Conv2d \<Rightarrow> bool list" where
  "Conv2d_flags c = [weight_requires_grad c]"

definition BatchNorm2d_flags :: "BatchNorm2d \<Rightarrow> bool list" where
  "BatchNorm2d_flags n = [bn_weight_requires_grad n, bn_bias_requires_grad n]"

definition Downsample_flags :: "Downsample option \<Rightarrow> bool list" where
  "Downsample_flags d =
     (case d of None \<Rightarrow> [] | Some (c, n) \<Rightarrow> Conv2d_flags c @ BatchNorm2d_flags n)"

fun Block_flags :: "Block \<Rightarrow> bool list" where
  "Block_flags (BasicBlock_instance c1 n1 c2 n2 d s) =
     Conv2d_flags c1 @ BatchNorm2d_flags n1 @ Conv2d_flags c2 @ BatchNorm2d_flags n2
       @ Downsample_flags d"
| "Block_flags (Bottleneck_instance c1 n1 c2 n2 c3 n3 d s) =
     Conv2d_flags c1 @ BatchNorm2d_flags n1 @ Conv2d_flags c2 @ BatchNorm2d_flags n2
       @ Conv2d_flags c3 @ BatchNorm2d_flags n3 @ Downsample_flags d"

definition backbone_flags :: "ResNet \<Rightarrow> bool list" where
  "backbone_flags self =
     Conv2d_flags (conv1 self) @ BatchNorm2d_flags (bn1 self)
       @ concat (map Block_flags (layer1 self)) @ concat (map Block_flags (layer2 self))
       @ concat (map Block_flags (layer3 self)) @ concat (map Block_flags (layer4 self))"

definition head_flags :: "ResNet \<Rightarrow> bool list" where
  "head_flags self = [fc_weight_requires_grad (fc self), fc_bias_requires_grad (fc self)]"

section \<open>The five presets\<close>

text \<open>
  Downloading a state dict and loading it into the model
  (\<^verbatim>\<open>load_state_dict_from_url\<close>, then \<^verbatim>\<open>model.load_state_dict\<close>) is the work of
  the library: it is the parameter \<open>load\<close>, which takes the URL and the model and
  returns the model with its parameters overwritten, or raises. The \<^verbatim>\<open>progress\<close>
  flag only reaches the download and is left out.
\<close>

definition resnet18 :: "(string \<Rightarrow> ResNet \<Rightarrow> error + ResNet) \<Rightarrow> bool \<Rightarrow> int \<Rightarrow> error + ResNet" where
  "resnet18 load pretrained num_classes =
     and_then (ResNet_init BasicBlock [2, 2, 2, 2] 1000 False 1 64 None) (\<lambda>model.
     and_then (if pretrained
               then load ''https://download.pytorch.org/models/resnet18-5c106cde.pth'' model
               else Inr model) (\<lambda>model.
       Inr (if num_classes \<noteq> 1000
            then model\<lparr>fc := Linear_new (512 * expansion (block model)) num_classes\<rparr>
            else model)))"

definition resnet34 :: "(string \<Rightarrow> ResNet \<Rightarrow> error + ResNet) \<Rightarrow> bool \<Rightarrow> int \<Rightarrow> error + ResNet" where
  "resnet34 load pretrained num_classes =
     and_then (ResNet_init BasicBlock [3, 4, 6, 3] 1000 False 1 64 None) (\<lambda>model.
     and_then (if pretrained
               then load ''https://download.pytorch.org/models/resnet34-333f7ec4.pth'' model
               else Inr model) (\<lambda>model.
       Inr (if num_classes \<noteq> 1000
            then model\<lparr>fc := Linear_new (512 * expansion (block model)) num_classes\<rparr>
            else model)))"

definition resnet50 :: "(string \<Rightarrow> ResNet \<Rightarrow> error + ResNet) \<Rightarrow> bool \<Rightarrow> int \<Rightarrow> error + ResNet" where
  "resnet50 load pretrained num_classes =
     and_then (ResNet_init Bottleneck [3, 4, 6, 3] 1000 False 1 64 None) (\<lambda>model.
     and_then (if pretrained
               then load ''https://download.pytorch.org/models/resnet50-19c8e357.pth'' model
               else Inr model) (\<lambda>model.
       Inr (if num_classes \<noteq> 1000
            then model\<lparr>fc := Linear_new (512 * expansion (block model)) num_classes\<rparr>
            else model)))"

definition resnet101 :: "(string \<Rightarrow> ResNet \<Rightarrow> error + ResNet) \<Rightarrow> bool \<Rightarrow> int \<Rightarrow> error + ResNet" where
  "resnet101 load pretrained num_classes =
     and_then (ResNet_init Bottleneck [3, 4, 23, 3] 1000 False 1 64 None) (\<lambda>model.
     and_then (if pretrained
               then load ''https://download.pytorch.org/models/resnet101-5d3b4d8f.pth'' model
               else Inr model) (\<lambda>model.
       Inr (if num_classes \<noteq> 1000
            then model\<lparr>fc := Linear_new (512 * expansion (block model)) num_classes\<rparr>
            else model)))"

definition resnet152 :: "(string \<Rightarrow> ResNet \<Rightarrow> error + ResNet) \<Rightarrow> bool \<Rightarrow> int \<Rightarrow> error + ResNet" where
  "resnet152 load pretrained num_classes =
     and_then (ResNet_init Bottleneck [3, 8, 36, 3] 1000 False 1 64 None) (\<lambda>model.
     and_then (if pretrained
               then load ''https://download.pytorch.org/models/resnet152-b121ed2d.pth'' model
               else Inr model) (\<lambda>model.
       Inr (if num_classes \<noteq> 1000
            then model\<lparr>fc := Linear_new (512 * expansion (block model)) num_classes\<rparr>
            else model)))"

section \<open>The cheap-convolution block\<close>






section \<open>What is observed of a block\<close>

fun block_out_channels :: "Block \<Rightarrow> int" where
  \<comment> \<open>the channel count leaving a block: the output width of its last convolution\<close>
  "block_out_channels (BasicBlock_instance c1 n1 c2 n2 d s) = out_channels c2"
| "block_out_channels (Bottleneck_instance c1 n1 c2 n2 c3 n3 d s) = out_channels c3"

fun is_Bottleneck :: "Block \<Rightarrow> bool" where
  \<comment> \<open>\<^verbatim>\<open>isinstance(m, Bottleneck)\<close>\<close>
  "is_Bottleneck (Bottleneck_instance c1 n1 c2 n2 c3 n3 d s) = True"
| "is_Bottleneck (BasicBlock_instance c1 n1 c2 n2 d s) = False"

definition Downsample_norms :: "Downsample option \<Rightarrow> BatchNorm2d list" where
  "Downsample_norms d = (case d of None \<Rightarrow> [] | Some (c, n) \<Rightarrow> [n])"

fun Block_norms :: "Block \<Rightarrow> BatchNorm2d list" where
  \<comment> \<open>every normalization layer inside a block\<close>
  "Block_norms (BasicBlock_instance c1 n1 c2 n2 d s) = [n1, n2] @ Downsample_norms d"
| "Block_norms (Bottleneck_instance c1 n1 c2 n2 c3 n3 d s) = [n1, n2, n3] @ Downsample_norms d"

definition ResNet_blocks :: "ResNet \<Rightarrow> Block list" where
  "ResNet_blocks self = layer1 self @ layer2 self @ layer3 self @ layer4 self"

definition ResNet_norms :: "ResNet \<Rightarrow> BatchNorm2d list" where
  \<comment> \<open>every normalization layer of the network: the stem's and those of the blocks\<close>
  "ResNet_norms self = bn1 self # concat (map Block_norms (ResNet_blocks self))"

section \<open>Examples\<close>



definition resnet_1111 :: ResNet where
  \<comment> \<open>\<^verbatim>\<open>ResNet(BasicBlock, [1, 1, 1, 1])\<close>\<close>
  "resnet_1111 = projr (ResNet_init BasicBlock [1, 1, 1, 1] 1000 False 1 64 None)"

definition stem_frozen_net :: ResNet where
  \<comment> \<open>that network after \<^verbatim>\<open>model.conv1.weight.requires_grad = False\<close>\<close>
  "stem_frozen_net = resnet_1111\<lparr>conv1 := Conv2d_set_grad False (conv1 resnet_1111)\<rparr>"

section \<open>Rounding to a float\<close>

lemma ilog2_lower:
  assumes "0 < x"
  shows "2 powi (ilog2 x) \<le> x"
proof (cases "1 \<le> x")
  case True
  then have pos: "0 < \<lfloor>x\<rfloor>" by simp
  from bitlen_bounds[OF pos] have "2 ^ nat (bitlen \<lfloor>x\<rfloor> - 1) \<le> \<lfloor>x\<rfloor>" by simp
  then have "(of_int (2 ^ nat (bitlen \<lfloor>x\<rfloor> - 1)) :: rat) \<le> of_int \<lfloor>x\<rfloor>"
    by (simp only: of_int_le_iff)
  then have "(2::rat) ^ nat (bitlen \<lfloor>x\<rfloor> - 1) \<le> x"
    by (simp add: le_floor_iff)
  moreover have "1 \<le> bitlen \<lfloor>x\<rfloor>"
    using pos bitlen_eq_zero_iff[of "\<lfloor>x\<rfloor>"] bitlen_nonneg[of "\<lfloor>x\<rfloor>"] by linarith
  ultimately show ?thesis using True
    by (simp add: ilog2_def power_int_def)
next
  case False
  define m where "m = \<lceil>1 / x\<rceil> - 1"
  from False assms have "1 < 1 / x" by (simp add: field_simps)
  then have "1 < \<lceil>1 / x\<rceil>" by (simp add: less_ceiling_iff)
  then have mpos: "0 < m" by (simp add: m_def)
  from bitlen_bounds[OF mpos] have "m < 2 ^ nat (bitlen m)" by simp
  then have "\<lceil>1 / x\<rceil> \<le> 2 ^ nat (bitlen m)" by (simp add: m_def)
  then have "1 / x \<le> of_int (2 ^ nat (bitlen m))"
    by (simp only: ceiling_le_iff)
  then have "1 / x \<le> 2 ^ nat (bitlen m)" by simp
  then have "1 \<le> 2 ^ nat (bitlen m) * x"
    using assms by (simp add: field_simps)
  then have "inverse (2 ^ nat (bitlen m)) \<le> x"
    by (simp add: field_simps)
  moreover have "(2::rat) powi (- bitlen m) = inverse (2 ^ nat (bitlen m))"
    using bitlen_nonneg[of m] by (simp add: power_int_minus power_int_nonneg_exp)
  moreover have "ilog2 x = - bitlen m"
    using False by (simp add: ilog2_def m_def)
  ultimately show ?thesis by simp
qed

lemma ilog2_upper:
  assumes "0 < x"
  shows "x < 2 powi (ilog2 x + 1)"
proof (cases "1 \<le> x")
  case True
  then have pos: "0 < \<lfloor>x\<rfloor>" by simp
  from bitlen_bounds[OF pos] have "\<lfloor>x\<rfloor> < 2 ^ nat (bitlen \<lfloor>x\<rfloor>)" by simp
  then have "x < of_int (2 ^ nat (bitlen \<lfloor>x\<rfloor>))"
    by (simp only: floor_less_iff)
  moreover have "0 \<le> bitlen \<lfloor>x\<rfloor>" by (rule bitlen_nonneg)
  ultimately show ?thesis using True
    by (simp add: ilog2_def power_int_def)
next
  case False
  define m where "m = \<lceil>1 / x\<rceil> - 1"
  from False assms have "1 < 1 / x" by (simp add: field_simps)
  then have "1 < \<lceil>1 / x\<rceil>" by (simp add: less_ceiling_iff)
  then have mpos: "0 < m" by (simp add: m_def)
  have b1: "1 \<le> bitlen m"
    using mpos bitlen_eq_zero_iff[of m] bitlen_nonneg[of m] by linarith
  from bitlen_bounds[OF mpos] have "2 ^ nat (bitlen m - 1) \<le> m" by simp
  then have "2 ^ nat (bitlen m - 1) < \<lceil>1 / x\<rceil>" by (simp add: m_def)
  then have "of_int (2 ^ nat (bitlen m - 1)) < 1 / x"
    by (simp only: less_ceiling_iff)
  then have "2 ^ nat (bitlen m - 1) < 1 / x" by simp
  then have "2 ^ nat (bitlen m - 1) * x < 1"
    using assms by (simp add: field_simps)
  then have "x < inverse (2 ^ nat (bitlen m - 1))"
    by (simp add: field_simps)
  moreover have "(2::rat) powi (- (bitlen m - 1)) = inverse (2 ^ nat (bitlen m - 1))"
    using b1 by (simp only: power_int_minus) (simp add: power_int_nonneg_exp)
  moreover have "ilog2 x + 1 = - (bitlen m - 1)"
    using False by (simp add: ilog2_def m_def)
  ultimately show ?thesis by simp
qed

lemma ilog2_less:
  assumes "0 < x" "x < 2 powi n"
  shows "ilog2 x < n"
proof (rule ccontr)
  assume "\<not> ilog2 x < n"
  then have "n \<le> ilog2 x" by simp
  then have "(2::rat) powi n \<le> 2 powi (ilog2 x)"
    by (intro power_int_increasing) simp_all
  with ilog2_lower[OF assms(1)] assms(2) show False by simp
qed

lemma round_half_even_of_int: "round_half_even (of_int k) = k"
  by (simp add: round_half_even_def)


lemma round_to_double_exact:
  assumes k: "\<bar>k\<bar> < 2 ^ 53" and j: "- 1074 \<le> j" "j \<le> 971"
  shows "round_to_double (of_int k * 2 powi j) = Finite (of_int k * 2 powi j)"
proof (cases "k = 0")
  case True
  then show ?thesis by (simp add: round_to_double_def)
next
  case False
  define x :: rat where "x = of_int k * 2 powi j"
  define e where "e = max (ilog2 \<bar>x\<bar>) (- 1022)"
  have xne: "x \<noteq> 0" using False by (simp add: x_def)
  have absx: "\<bar>x\<bar> = of_int \<bar>k\<bar> * 2 powi j"
    by (simp add: x_def abs_mult)
  have "(of_int \<bar>k\<bar> :: rat) < of_int (2 ^ 53)"
    using k by (simp only: of_int_less_iff)
  then have kr: "(of_int \<bar>k\<bar> :: rat) < 2 ^ 53" by simp
  have "\<bar>x\<bar> < 2 ^ 53 * 2 powi j"
    unfolding absx using kr by (intro mult_strict_right_mono) simp_all
  also have "\<dots> = 2 powi (53 + j)"
    by (simp add: power_int_add)
  finally have lt: "\<bar>x\<bar> < 2 powi (53 + j)" .
  have "ilog2 \<bar>x\<bar> < 53 + j"
    using xne lt by (intro ilog2_less) simp_all
  then have ele: "e - 52 \<le> j" using j by (simp add: e_def)
  define s where "s = nat (j - (e - 52))"
  have js: "j = (e - 52) + int s" using ele by (simp add: s_def)
  have "x = of_int k * (2 powi (e - 52) * 2 ^ s)"
    unfolding x_def by (subst js) (simp add: power_int_add)
  then have xeq: "x = of_int (k * 2 ^ s) * 2 powi (e - 52)" by simp
  have q: "x / 2 powi (e - 52) = of_int (k * 2 ^ s)"
    by (subst xeq) simp
  have r: "of_int (round_half_even (x / 2 powi (e - 52))) * 2 powi (e - 52) = x"
    unfolding q round_half_even_of_int using xeq by simp
  have "2 powi (53 + j) \<le> (2::rat) powi 1024"
    using j by (intro power_int_increasing) simp_all
  then have "\<bar>x\<bar> < 2 ^ 1024" using lt by simp
  then have b: "\<not> 2 ^ 1024 \<le> x" "\<not> x \<le> - (2 ^ 1024)" by linarith+
  show ?thesis
    unfolding x_def[symmetric] round_to_double_def
    using xne r b by (simp add: Let_def e_def[symmetric])
qed


lemma round_to_double_of_int:
  assumes "\<bar>k\<bar> < 2 ^ 53"
  shows "round_to_double (of_int k) = Finite (of_int k)"
  using round_to_double_exact[OF assms, of 0] by simp

lemma round_to_double_div_64:
  assumes "\<bar>k\<bar> < 2 ^ 53"
  shows "round_to_double (of_int k / 64) = Finite (of_int k / 64)"
proof -
  have "(2::rat) powi (- 6) = 1 / 64"
    by (simp add: power_int_minus_divide)
  with round_to_double_exact[OF assms, of "- 6"] show ?thesis by simp
qed

lemma round_half_even_upper: "round_half_even y \<le> \<lceil>y\<rceil>"
proof -
  have "\<lfloor>y\<rfloor> \<le> \<lceil>y\<rceil>" by (rule floor_le_ceiling)
  moreover have "1 / 2 \<le> y - of_int \<lfloor>y\<rfloor> \<Longrightarrow> \<lfloor>y\<rfloor> + 1 \<le> \<lceil>y\<rceil>"
  proof -
    assume "1 / 2 \<le> y - of_int \<lfloor>y\<rfloor>"
    then have "of_int \<lfloor>y\<rfloor> < y" by simp
    then have "\<lfloor>y\<rfloor> < \<lceil>y\<rceil>" by (simp add: less_ceiling_iff)
    then show ?thesis by simp
  qed
  ultimately show ?thesis
    by (auto simp add: round_half_even_def Let_def)
qed





lemma Bottleneck_width_exact:
  assumes "0 < planes" "0 < w" "planes * w < 2 ^ 53"
  shows "Bottleneck_width planes w g = Inr ((planes * w) div 64 * g)"
proof -
  have "w \<le> planes * w" using assms(1,2) by (simp add: mult_le_cancel_right1)
  then have w: "\<bar>w\<bar> < 2 ^ 53" using assms by linarith
  have "planes \<le> planes * w" using assms(1,2) by (simp add: mult_le_cancel_left1)
  then have p: "\<bar>planes\<bar> < 2 ^ 53" using assms by linarith
  have pw: "\<bar>planes * w\<bar> < 2 ^ 53" using assms by (simp add: abs_mult)
  have 1: "float_of_int w = Inr (Finite (of_int w))"
    by (simp add: float_of_int_def round_to_double_of_int[OF w])
  have 2: "float_div (Finite (of_int w)) (Finite 64) = Inr (Finite (of_int w / 64))"
    by (simp add: round_to_double_div_64[OF w])
  have 3: "float_of_int planes = Inr (Finite (of_int planes))"
    by (simp add: float_of_int_def round_to_double_of_int[OF p])
  have "float_mul (Finite (of_int planes)) (Finite (of_int w / 64))
          = round_to_double (of_int (planes * w) / 64)"
    by simp
  then have 4: "float_mul (Finite (of_int planes)) (Finite (of_int w / 64))
          = Finite (of_int (planes * w) / 64)"
    by (simp only: round_to_double_div_64[OF pw])
  have "(0::rat) \<le> of_int (planes * w) / 64" using assms by simp
  moreover have "\<lfloor>(of_int (planes * w) :: rat) / 64\<rfloor> = (planes * w) div 64"
    using floor_divide_of_int_eq[of "planes * w" 64, where ?'a = rat] by simp
  ultimately have 5: "py_int (Finite (of_int (planes * w) / 64)) = Inr ((planes * w) div 64)"
    by simp
  show ?thesis
    unfolding Bottleneck_width_def by (simp only: 1 2 3 4 5 sum.case)
qed

lemma round_half_even_floor: "\<lfloor>y\<rfloor> \<le> round_half_even y"
  by (simp add: round_half_even_def Let_def)

lemma ilog2_ge:
  assumes "0 < x" "2 powi k \<le> x"
  shows "k \<le> ilog2 x"
proof (rule ccontr)
  assume "\<not> k \<le> ilog2 x"
  then have "ilog2 x + 1 \<le> k" by simp
  then have "(2::rat) powi (ilog2 x + 1) \<le> 2 powi k"
    by (intro power_int_increasing) simp_all
  with ilog2_upper[OF assms(1)] assms(2) show False by simp
qed

lemma round_to_double_ge:
  assumes x: "0 < x" and k: "2 powi k \<le> x" "- 1022 \<le> k"
  shows "round_to_double x = PosInf \<or> (\<exists>r. round_to_double x = Finite r \<and> 2 powi k \<le> r)"
proof -
  define e where "e = max (ilog2 x) (- 1022)"
  define u :: rat where "u = 2 powi (e - 52)"
  define n where "n = round_half_even (x / u)"
  define r :: rat where "r = of_int n * u"
  have upos: "0 < u" by (simp add: u_def)
  have ke: "k \<le> ilog2 x" using x k(1) by (rule ilog2_ge)
  then have e: "e = ilog2 x" using k(2) by (simp add: e_def)
  have "2 powi e \<le> x" unfolding e by (rule ilog2_lower[OF x])
  then have "2 powi e / u \<le> x / u" using upos by (simp add: divide_right_mono)
  moreover have "2 powi e / u = (2::rat) ^ 52"
    by (simp add: u_def power_int_diff)
  ultimately have "(of_int (2 ^ 52) :: rat) \<le> x / u" by simp
  then have "2 ^ 52 \<le> \<lfloor>x / u\<rfloor>" by (simp only: le_floor_iff)
  then have "2 ^ 52 \<le> n"
    unfolding n_def using round_half_even_floor[of "x / u"] by (rule order_trans)
  then have "(of_int (2 ^ 52) :: rat) \<le> of_int n" by (simp only: of_int_le_iff)
  then have "of_int (2 ^ 52) * u \<le> r"
    unfolding r_def using upos by (intro mult_right_mono) simp_all
  moreover have "of_int (2 ^ 52) * u = (2::rat) powi e"
    by (simp add: u_def power_int_diff)
  ultimately have re: "2 powi e \<le> r" by simp
  have "(2::rat) powi k \<le> 2 powi e"
    using ke unfolding e by (intro power_int_increasing) simp_all
  with re have rk: "2 powi k \<le> r" by simp
  have "(0::rat) < 2 powi k" by simp
  with rk have rpos: "0 < r" by linarith
  then have neg: "\<not> r \<le> - (2 ^ 1024)" by simp
  have "round_to_double x =
      (if 2 ^ 1024 \<le> r then PosInf else if r \<le> - (2 ^ 1024) then NegInf else Finite r)"
    using x
    by (simp add: round_to_double_def Let_def e_def[symmetric] u_def[symmetric]
          n_def[symmetric] r_def[symmetric])
  with neg rk show ?thesis by auto
qed

lemma round_to_double_le:
  assumes x: "0 < x" and m: "x \<le> 2 powi m" "- 1074 \<le> m" "m \<le> 1023"
  shows "\<exists>r. round_to_double x = Finite r \<and> 0 \<le> r \<and> r \<le> 2 powi m"
proof -
  define e where "e = max (ilog2 x) (- 1022)"
  define u :: rat where "u = 2 powi (e - 52)"
  define n where "n = round_half_even (x / u)"
  define r :: rat where "r = of_int n * u"
  have upos: "0 < u" by (simp add: u_def)
  have "x < 2 powi (m + 1)"
  proof -
    have "(2::rat) powi m < 2 powi (m + 1)"
      by (intro power_int_strict_increasing) simp_all
    with m(1) show ?thesis by simp
  qed
  then have "ilog2 x < m + 1" using x by (intro ilog2_less)
  then have em: "e - 52 \<le> m" using m(2) by (simp add: e_def)
  define t where "t = nat (m - (e - 52))"
  have mt: "m = (e - 52) + int t" using em by (simp add: t_def)
  have pm: "(2::rat) powi m = of_int (2 ^ t) * u"
    unfolding u_def by (subst mt) (simp add: power_int_add)
  then have "2 powi m / u = (of_int (2 ^ t) :: rat)" using upos by simp
  moreover have "x / u \<le> 2 powi m / u" using m(1) upos by (simp add: divide_right_mono)
  ultimately have "x / u \<le> of_int (2 ^ t)" by simp
  then have "\<lceil>x / u\<rceil> \<le> 2 ^ t" by (simp only: ceiling_le_iff)
  with round_half_even_upper[of "x / u"] have "n \<le> 2 ^ t" by (simp add: n_def)
  then have "(of_int n :: rat) \<le> of_int (2 ^ t)" by (simp only: of_int_le_iff)
  then have "r \<le> of_int (2 ^ t) * u"
    unfolding r_def using upos by (intro mult_right_mono) simp_all
  then have rm: "r \<le> 2 powi m" by (simp only: pm)
  have "0 \<le> x / u" using x upos by simp
  then have "0 \<le> \<lfloor>x / u\<rfloor>" by simp
  then have "0 \<le> n"
    unfolding n_def using round_half_even_floor[of "x / u"] by (rule order_trans)
  then have r0: "0 \<le> r" using upos by (simp add: r_def)
  have "(2::rat) powi m \<le> 2 powi 1023"
    using m(3) by (intro power_int_increasing) simp_all
  with rm have "r \<le> 2 ^ 1023" by simp
  then have fin: "\<not> 2 ^ 1024 \<le> r" by simp
  from r0 have neg: "\<not> r \<le> - (2 ^ 1024)" by simp
  have "round_to_double x =
      (if 2 ^ 1024 \<le> r then PosInf else if r \<le> - (2 ^ 1024) then NegInf else Finite r)"
    using x
    by (simp add: round_to_double_def Let_def e_def[symmetric] u_def[symmetric]
          n_def[symmetric] r_def[symmetric])
  with fin neg r0 rm show ?thesis by simp
qed

lemma round_to_double_Finite_less:
  assumes "round_to_double x = Finite r"
  shows "r < 2 ^ 1024"
  using assms by (auto simp add: round_to_double_def Let_def split: if_splits)

lemma Bottleneck_width_large:
  assumes p: "0 < planes" and w: "0 < w" and big: "2 ^ 53 \<le> planes * w"
    and eq: "Bottleneck_width planes w g = Inr W"
  shows "\<exists>W0. W = W0 * g \<and> 2 ^ 46 \<le> W0"
proof -
  define a where "a = ilog2 (of_int planes)"
  define b where "b = ilog2 (of_int w)"
  have ppos: "(0::rat) < of_int planes" and wpos: "(0::rat) < of_int w"
    using p w by simp_all
  have pl: "2 powi a \<le> (of_int planes :: rat)" and pu: "(of_int planes :: rat) < 2 powi (a + 1)"
    unfolding a_def using ilog2_lower[OF ppos] ilog2_upper[OF ppos] by simp_all
  have wl: "2 powi b \<le> (of_int w :: rat)" and wu: "(of_int w :: rat) < 2 powi (b + 1)"
    unfolding b_def using ilog2_lower[OF wpos] ilog2_upper[OF wpos] by simp_all
  have a0: "0 \<le> a" unfolding a_def using p by (intro ilog2_ge) simp_all
  have b0: "0 \<le> b" unfolding b_def using w by (intro ilog2_ge) simp_all
  have "(of_int planes :: rat) * of_int w < 2 powi (a + 1) * 2 powi (b + 1)"
    using pu wu ppos wpos by (intro mult_strict_mono) simp_all
  also have "\<dots> = 2 powi ((a + 1) + (b + 1))"
    by (rule power_int_add[symmetric]) simp
  also have "(a + 1) + (b + 1) = a + b + 2" by simp
  finally have "(of_int (planes * w) :: rat) < 2 powi (a + b + 2)" by simp
  moreover have "(of_int (2 ^ 53) :: rat) \<le> of_int (planes * w)"
    using big by (simp only: of_int_le_iff)
  ultimately have lt: "(2::rat) powi 53 < 2 powi (a + b + 2)" by simp
  have ab: "52 \<le> a + b"
  proof (rule ccontr)
    assume "\<not> 52 \<le> a + b"
    then have "a + b + 2 \<le> 53" by simp
    then have "(2::rat) powi (a + b + 2) \<le> 2 powi 53"
      by (intro power_int_increasing) simp_all
    with lt show False by simp
  qed
  \<comment> \<open>\<^verbatim>\<open>base_width\<close> as a float\<close>
  have nw: "round_to_double (of_int w) \<noteq> PosInf"
  proof
    assume "round_to_double (of_int w) = PosInf"
    then have "Bottleneck_width planes w g = Inl OverflowError"
      by (simp add: Bottleneck_width_def float_of_int_def)
    with eq show False by simp
  qed
  with round_to_double_ge[OF wpos wl] b0 obtain rw where
    fw: "round_to_double (of_int w) = Finite rw" and rwl: "2 powi b \<le> rw"
    by auto
  have rwpos: "0 < rw"
  proof -
    have "(0::rat) < 2 powi b" by simp
    with rwl show ?thesis by linarith
  qed
  \<comment> \<open>divided by 64\<close>
  have "rw / 64 < 2 ^ 1024 / 64" using round_to_double_Finite_less[OF fw] by simp
  then have "rw / 64 \<le> 2 powi 1023" by simp
  from round_to_double_le[OF _ this] rwpos obtain rq where
    fq: "round_to_double (rw / 64) = Finite rq" by auto
  have "2 powi (b - 6) = (2::rat) powi b / 64" by (simp add: power_int_diff)
  also have "\<dots> \<le> rw / 64" using rwl by simp
  finally have "2 powi (b - 6) \<le> rw / 64" .
  from round_to_double_ge[OF _ this] rwpos b0 fq have rql: "2 powi (b - 6) \<le> rq" by auto
  have rqpos: "0 < rq"
  proof -
    have "(0::rat) < 2 powi (b - 6)" by simp
    with rql show ?thesis by linarith
  qed
  \<comment> \<open>\<^verbatim>\<open>planes\<close> as a float\<close>
  have np: "round_to_double (of_int planes) \<noteq> PosInf"
  proof
    assume "round_to_double (of_int planes) = PosInf"
    then have "Bottleneck_width planes w g = Inl OverflowError"
      by (simp add: Bottleneck_width_def float_of_int_def fw fq)
    with eq show False by simp
  qed
  with round_to_double_ge[OF ppos pl] a0 obtain rp where
    fp: "round_to_double (of_int planes) = Finite rp" and rpl: "2 powi a \<le> rp"
    by auto
  \<comment> \<open>the product\<close>
  have "(2::rat) powi 46 \<le> 2 powi (a + (b - 6))"
    using ab by (intro power_int_increasing) simp_all
  also have "\<dots> = 2 powi a * 2 powi (b - 6)" by (simp add: power_int_add)
  also have "\<dots> \<le> rp * rq"
  proof -
    have "(0::rat) < 2 powi a" by simp
    with rpl have "0 \<le> rp" by linarith
    then show ?thesis using rpl rql by (intro mult_mono) simp_all
  qed
  finally have prod: "2 powi 46 \<le> rp * rq" .
  have prodpos: "0 < rp * rq"
  proof -
    have "(0::rat) < 2 powi 46" by simp
    with prod show ?thesis by linarith
  qed
  have nm: "round_to_double (rp * rq) \<noteq> PosInf"
  proof
    assume "round_to_double (rp * rq) = PosInf"
    then have "Bottleneck_width planes w g = Inl OverflowError"
      by (simp add: Bottleneck_width_def float_of_int_def fw fq fp)
    with eq show False by simp
  qed
  with round_to_double_ge[OF prodpos prod] obtain r where
    fr: "round_to_double (rp * rq) = Finite r" and rl: "2 powi 46 \<le> r"
    by auto
  have "(of_int (2 ^ 46) :: rat) \<le> r" using rl by simp
  then have fl: "2 ^ 46 \<le> \<lfloor>r\<rfloor>" by (simp only: le_floor_iff)
  have "0 \<le> r" using rl by simp
  then have "Bottleneck_width planes w g = Inr (\<lfloor>r\<rfloor> * g)"
    by (simp add: Bottleneck_width_def float_of_int_def fw fq fp fr)
  with eq have "W = \<lfloor>r\<rfloor> * g" by simp
  with fl show ?thesis by blast
qed

section \<open>The stage builder, step by step\<close>

lemma construct_Inr:
  assumes "construct blk i p s d g w dil = Inr b"
  shows "blk_downsample b = d" and "blk_stride b = s"
    and "block_out_channels b = p * expansion blk"
proof -
  show "blk_downsample b = d" using assms
    by (cases blk)
       (auto simp: BasicBlock_init_def Bottleneck_init_def split: if_splits sum.splits)
  show "blk_stride b = s" using assms
    by (cases blk)
       (auto simp: BasicBlock_init_def Bottleneck_init_def split: if_splits sum.splits)
  show "block_out_channels b = p * expansion blk" using assms
    by (cases blk)
       (auto simp: BasicBlock_init_def Bottleneck_init_def conv3x3_def conv1x1_def
          Conv2d_new_def split: if_splits sum.splits)
qed


lemma identity_blocks_Inr:
  assumes "identity_blocks k blk self planes = Inr bs"
  shows "length bs = k \<and>
         (\<forall>b\<in>set bs. construct blk (inplanes self) planes 1 None (groups self)
            (base_width self) (dilation self) = Inr b)"
  using assms
proof (induction k arbitrary: bs)
  case 0
  then show ?case by simp
next
  case (Suc k)
  from Suc.prems obtain b bs' where
    b: "construct blk (inplanes self) planes 1 None (groups self) (base_width self)
          (dilation self) = Inr b"
    and bs': "identity_blocks k blk self planes = Inr bs'"
    and eq: "bs = b # bs'"
    by (auto split: sum.splits)
  from Suc.IH[OF bs'] b eq show ?case by simp
qed

lemma make_layer_Inr:
  assumes "make_layer self blk planes blocks stride dilate = Inr (ls, self')"
  shows "\<exists>b bs. ls = b # bs \<and>
     construct blk (inplanes self) planes (if dilate then 1 else stride)
       (if (if dilate then 1 else stride) \<noteq> 1 \<or> inplanes self \<noteq> planes * expansion blk
        then Some (conv1x1 (inplanes self) (planes * expansion blk)
                     (if dilate then 1 else stride),
                   BatchNorm2d_new (planes * expansion blk))
        else None)
       (groups self) (base_width self) (dilation self) = Inr b \<and>
     identity_blocks (nat (blocks - 1)) blk self' planes = Inr bs \<and>
     self' = self\<lparr>dilation := (if dilate then dilation self * stride else dilation self),
                  inplanes := planes * expansion blk\<rparr>"
proof (cases dilate)
  case True
  with assms show ?thesis
    by (auto simp add: make_layer_def Let_def split: sum.splits)
next
  case False
  with assms show ?thesis
    by (auto simp add: make_layer_def Let_def split: sum.splits)
qed


lemma construct_Bottleneck_dilation:
  assumes "construct Bottleneck i p s d g w dil = Inr b"
  shows "conv_dilation (blk_conv2 b) = dil"
  using assms
  by (auto simp: Bottleneck_init_def conv3x3_def Conv2d_new_def split: sum.splits)

lemma construct_BasicBlock_dilation:
  assumes "construct BasicBlock i p s d g w dil = Inr b"
  shows "dil \<le> 1"
  using assms by (auto simp: BasicBlock_init_def split: if_splits)

lemma Bottleneck_init_exact:
  assumes "0 < p" "0 < w" "p * w < 2 ^ 53"
  shows "Bottleneck_init i p s d g w dil =
     Inr (Bottleneck_instance
            (conv1x1 i ((p * w) div 64 * g) 1) (BatchNorm2d_new ((p * w) div 64 * g))
            (conv3x3 ((p * w) div 64 * g) ((p * w) div 64 * g) s g dil)
            (BatchNorm2d_new ((p * w) div 64 * g))
            (conv1x1 ((p * w) div 64 * g) (p * 4) 1) (BatchNorm2d_new (p * 4))
            d s)"
  by (simp add: Bottleneck_init_def Bottleneck_width_exact[OF assms])

lemma Bottleneck_init_small:
  assumes init: "Bottleneck_init i planes s d g w dil = Inr b"
    and pos: "0 < planes" "0 < w" "0 < g"
    and size: "Conv2d_weight_numel (blk_conv2 b) < 2 ^ 63"
  shows "planes * w < 2 ^ 53"
proof (rule ccontr)
  assume "\<not> planes * w < 2 ^ 53"
  then have big: "2 ^ 53 \<le> planes * w" by simp
  from init obtain W where W: "Bottleneck_width planes w g = Inr W"
    and b: "blk_conv2 b = conv3x3 W W s g dil"
    by (auto simp add: Bottleneck_init_def split: sum.splits)
  from Bottleneck_width_large[OF pos(1,2) big W] obtain W0 where
    W0: "W = W0 * g" and large: "2 ^ 46 \<le> W0" by blast
  have numel: "Conv2d_weight_numel (blk_conv2 b) = W0 * g * W0 * 9"
    using pos(3) by (simp add: b W0 Conv2d_weight_numel_def conv3x3_def Conv2d_new_def)
  have "(2 ^ 46 :: int) * 1 \<le> W0 * g"
    using large pos(3) by (intro mult_mono) simp_all
  then have "(2 ^ 46 :: int) * 2 ^ 46 \<le> (W0 * g) * W0"
    using large by (intro mult_mono) simp_all
  then have "(2 ^ 63 :: int) \<le> W0 * g * W0 * 9" by simp
  with size numel show False by simp
qed

lemma identity_blocks_replicate:
  assumes "construct blk (inplanes self) planes 1 None (groups self) (base_width self)
             (dilation self) = Inr c"
  shows "identity_blocks k blk self planes = Inr (replicate k c)"
  by (induction k) (simp_all add: assms)

lemma make_layer_eval:
  assumes "construct blk (inplanes self) planes (if dilate then 1 else stride)
       (if (if dilate then 1 else stride) \<noteq> 1 \<or> inplanes self \<noteq> planes * expansion blk
        then Some (conv1x1 (inplanes self) (planes * expansion blk)
                     (if dilate then 1 else stride),
                   BatchNorm2d_new (planes * expansion blk))
        else None)
       (groups self) (base_width self) (dilation self) = Inr b"
    and "construct blk (planes * expansion blk) planes 1 None (groups self) (base_width self)
           (if dilate then dilation self * stride else dilation self) = Inr c"
  shows "make_layer self blk planes blocks stride dilate =
           Inr (b # replicate (nat (blocks - 1)) c,
                self\<lparr>dilation := (if dilate then dilation self * stride else dilation self),
                     inplanes := planes * expansion blk\<rparr>)"
proof -
  let ?self' = "self\<lparr>dilation := (if dilate then dilation self * stride else dilation self),
                     inplanes := planes * expansion blk\<rparr>"
  have "identity_blocks (nat (blocks - 1)) blk ?self' planes
          = Inr (replicate (nat (blocks - 1)) c)"
    by (rule identity_blocks_replicate) (simp add: assms(2))
  then show ?thesis using assms(1)
    by (cases dilate) (auto simp add: make_layer_def Let_def)
qed

lemma identity_blocks_Inl:
  assumes "construct blk (inplanes self) planes 1 None (groups self) (base_width self)
             (dilation self) = Inl e" and "0 < k"
  shows "identity_blocks k blk self planes = Inl e"
  using assms by (cases k) simp_all

lemma make_layer_BasicBlock:
  "make_layer self BasicBlock planes blocks stride dilate =
     (if groups self \<noteq> 1 \<or> base_width self \<noteq> 64 then Inl BasicBlock_ValueError
      else if 1 < dilation self then Inl Dilation_NotImplementedError
      else if 2 \<le> blocks \<and> 1 < (if dilate then dilation self * stride else dilation self)
      then Inl Dilation_NotImplementedError
      else Inr (BasicBlock_instance
                  (conv3x3 (inplanes self) planes (if dilate then 1 else stride) 1 1)
                  (BatchNorm2d_new planes)
                  (conv3x3 planes planes 1 1 1) (BatchNorm2d_new planes)
                  (if (if dilate then 1 else stride) \<noteq> 1 \<or> inplanes self \<noteq> planes
                   then Some (conv1x1 (inplanes self) planes (if dilate then 1 else stride),
                              BatchNorm2d_new planes)
                   else None)
                  (if dilate then 1 else stride)
                # replicate (nat (blocks - 1))
                    (BasicBlock_instance
                       (conv3x3 planes planes 1 1 1) (BatchNorm2d_new planes)
                       (conv3x3 planes planes 1 1 1) (BatchNorm2d_new planes) None 1),
                self\<lparr>dilation := (if dilate then dilation self * stride else dilation self),
                     inplanes := planes\<rparr>))"
proof -
  let ?self' = "self\<lparr>dilation := (if dilate then dilation self * stride else dilation self),
                     inplanes := planes * expansion BasicBlock\<rparr>"
  let ?d' = "if dilate then dilation self * stride else dilation self"
  consider (bad) "groups self \<noteq> 1 \<or> base_width self \<noteq> 64"
    | (dil) "groups self = 1" "base_width self = 64" "1 < dilation self"
    | (rest) "groups self = 1" "base_width self = 64" "dilation self \<le> 1"
        "2 \<le> blocks" "1 < ?d'"
    | (ok) "groups self = 1" "base_width self = 64" "dilation self \<le> 1"
        "\<not> (2 \<le> blocks \<and> 1 < ?d')"
    by linarith
  then show ?thesis
  proof cases
    case bad
    then show ?thesis
      by (cases dilate) (auto simp add: make_layer_def Let_def BasicBlock_init_def)
  next
    case dil
    then show ?thesis
      by (cases dilate) (auto simp add: make_layer_def Let_def BasicBlock_init_def)
  next
    case rest
    have "identity_blocks (nat (blocks - 1)) BasicBlock ?self' planes
            = Inl Dilation_NotImplementedError"
      using rest by (intro identity_blocks_Inl) (auto simp add: BasicBlock_init_def)
    then show ?thesis using rest
      by (cases dilate) (auto simp add: make_layer_def Let_def BasicBlock_init_def)
  next
    case ok
    show ?thesis
    proof (cases "2 \<le> blocks")
      case True
      with ok have d': "?d' \<le> 1" by auto
      have "identity_blocks (nat (blocks - 1)) BasicBlock ?self' planes
            = Inr (replicate (nat (blocks - 1))
                    (BasicBlock_instance
                       (conv3x3 planes planes 1 1 1) (BatchNorm2d_new planes)
                       (conv3x3 planes planes 1 1 1) (BatchNorm2d_new planes) None 1))"
        using ok d' by (intro identity_blocks_replicate) (auto simp add: BasicBlock_init_def)
      then show ?thesis using ok True
        by (cases dilate) (auto simp add: make_layer_def Let_def BasicBlock_init_def)
    next
      case False
      then have "nat (blocks - 1) = 0" by simp
      then show ?thesis using ok False
        by (cases dilate) (auto simp add: make_layer_def Let_def BasicBlock_init_def)
    qed
  qed
qed

lemma make_layer_Bottleneck:
  assumes "0 < planes" "0 < base_width self" "planes * base_width self < 2 ^ 53"
  shows "make_layer self Bottleneck planes blocks stride dilate =
     (let width = (planes * base_width self) div 64 * groups self;
          stride1 = (if dilate then 1 else stride);
          dilation1 = (if dilate then dilation self * stride else dilation self)
      in Inr (Bottleneck_instance
                (conv1x1 (inplanes self) width 1) (BatchNorm2d_new width)
                (conv3x3 width width stride1 (groups self) (dilation self))
                (BatchNorm2d_new width)
                (conv1x1 width (planes * 4) 1) (BatchNorm2d_new (planes * 4))
                (if stride1 \<noteq> 1 \<or> inplanes self \<noteq> planes * 4
                 then Some (conv1x1 (inplanes self) (planes * 4) stride1,
                            BatchNorm2d_new (planes * 4))
                 else None)
                stride1
              # replicate (nat (blocks - 1))
                  (Bottleneck_instance
                     (conv1x1 (planes * 4) width 1) (BatchNorm2d_new width)
                     (conv3x3 width width 1 (groups self) dilation1) (BatchNorm2d_new width)
                     (conv1x1 width (planes * 4) 1) (BatchNorm2d_new (planes * 4))
                     None 1),
              self\<lparr>dilation := dilation1, inplanes := planes * 4\<rparr>))"
proof -
  let ?w = "(planes * base_width self) div 64 * groups self"
  let ?s = "if dilate then 1 else stride"
  let ?ds = "if ?s \<noteq> 1 \<or> inplanes self \<noteq> planes * expansion Bottleneck
        then Some (conv1x1 (inplanes self) (planes * expansion Bottleneck) ?s,
                   BatchNorm2d_new (planes * expansion Bottleneck))
        else None"
  let ?d = "if dilate then dilation self * stride else dilation self"
  have b: "construct Bottleneck (inplanes self) planes ?s ?ds
       (groups self) (base_width self) (dilation self) =
     Inr (Bottleneck_instance
            (conv1x1 (inplanes self) ?w 1) (BatchNorm2d_new ?w)
            (conv3x3 ?w ?w ?s (groups self) (dilation self)) (BatchNorm2d_new ?w)
            (conv1x1 ?w (planes * 4) 1) (BatchNorm2d_new (planes * 4)) ?ds ?s)"
    by (simp only: construct.simps Bottleneck_init_exact[OF assms])
  have c: "construct Bottleneck (planes * expansion Bottleneck) planes 1 None (groups self)
       (base_width self) ?d =
     Inr (Bottleneck_instance
            (conv1x1 (planes * expansion Bottleneck) ?w 1) (BatchNorm2d_new ?w)
            (conv3x3 ?w ?w 1 (groups self) ?d) (BatchNorm2d_new ?w)
            (conv1x1 ?w (planes * 4) 1) (BatchNorm2d_new (planes * 4)) None 1)"
    by (simp only: construct.simps Bottleneck_init_exact[OF assms])
  show ?thesis
    unfolding Let_def make_layer_eval[OF b c] by simp
qed

section \<open>The assembler, step by step\<close>

lemma and_then_Inr: "and_then m f = Inr y \<longleftrightarrow> (\<exists>x. m = Inr x \<and> f x = Inr y)"
  by (cases m) (simp_all add: and_then_def)

lemma and_then_Inl: "and_then m f = Inl e \<longleftrightarrow> m = Inl e \<or> (\<exists>x. m = Inr x \<and> f x = Inl e)"
  by (cases m) (simp_all add: and_then_def)

lemma and_then_InrE:
  assumes "and_then m f = Inr y"
  obtains x where "m = Inr x" and "f x = Inr y"
  using assms by (cases m) (simp_all add: and_then_def)

lemma and_then_simps [simp]:
  "and_then (Inr x) f = f x" "and_then (Inl e) f = Inl e"
  by (simp_all add: and_then_def)

lemma getitem_simps [simp]:
  "getitem (x # xs) 0 = Inr x"
  "getitem (x # xs) (Suc n) = getitem xs n"
  "getitem [] n = Inl IndexError"
  by (simp_all add: getitem_def)

lemma ResNet_init_Inr:
  assumes "ResNet_init blk layers nc z g w rswd = Inr net"
  shows "\<exists>k1 k2 k3 k4 d2 d3 d4 l1 l2 l3 l4 self1 self2 self3 self4.
     layers ! 0 = k1 \<and> layers ! 1 = k2 \<and> layers ! 2 = k3 \<and> layers ! 3 = k4 \<and> 4 \<le> length layers \<and>
     (case rswd of None \<Rightarrow> [False, False, False] | Some xs \<Rightarrow> xs) = [d2, d3, d4] \<and>
     make_layer \<lparr>inplanes = 64, dilation = 1, groups = g, base_width = w\<rparr> blk 64 k1 1 False
       = Inr (l1, self1) \<and>
     make_layer self1 blk 128 k2 2 d2 = Inr (l2, self2) \<and>
     make_layer self2 blk 256 k3 2 d3 = Inr (l3, self3) \<and>
     make_layer self3 blk 512 k4 2 d4 = Inr (l4, self4) \<and>
     net = \<lparr>self_builder = self4, block = blk, conv1 = Conv2d_new 3 64 7 2 3 1 1,
            bn1 = init_norm (BatchNorm2d_new 64),
            layer1 = map ((if z then zero_init_block else (\<lambda>b. b)) \<circ> init_block) l1,
            layer2 = map ((if z then zero_init_block else (\<lambda>b. b)) \<circ> init_block) l2,
            layer3 = map ((if z then zero_init_block else (\<lambda>b. b)) \<circ> init_block) l3,
            layer4 = map ((if z then zero_init_block else (\<lambda>b. b)) \<circ> init_block) l4,
            fc = Linear_new (512 * expansion blk) nc\<rparr>"
proof -
  let ?rswd = "case rswd of None \<Rightarrow> [False, False, False] | Some xs \<Rightarrow> xs"
  from assms have len: "length ?rswd = 3"
    by (simp add: ResNet_init_def Let_def split: if_splits)
  then obtain d2 d3 d4 where r: "?rswd = [d2, d3, d4]"
    by (auto simp add: length_Suc_conv numeral_3_eq_3)
  from assms show ?thesis
    unfolding ResNet_init_def Let_def r
    apply (simp only: list.size, simp)
    apply ((erule and_then_InrE, clarsimp simp add: getitem_def split: if_splits)+)
    done
qed


lemma and_then_InlE:
  assumes "and_then m f = Inl e"
  obtains "m = Inl e" | x where "m = Inr x" and "f x = Inl e"
  using assms by (cases m) (simp_all add: and_then_def)

lemma construct_Inl:
  assumes "construct blk i p s d g w dil = Inl e"
  shows "e \<in> {BasicBlock_ValueError, Dilation_NotImplementedError, OverflowError}"
proof (cases blk)
  case BasicBlock
  with assms show ?thesis by (auto simp: BasicBlock_init_def split: if_splits)
next
  case Bottleneck
  have fi: "\<And>n e'. float_of_int n = Inl e' \<Longrightarrow> e' = OverflowError"
    by (auto simp: float_of_int_def split: pyfloat.splits)
  have fd: "\<And>x e'. float_div x (Finite 64) = Inl e' \<Longrightarrow> False"
    by (case_tac x) auto
  have pi: "\<And>x e'. py_int x = Inl e' \<Longrightarrow> e' = OverflowError"
    by (case_tac x) auto
  from Bottleneck assms have "Bottleneck_width p w g = Inl e"
    by (simp add: Bottleneck_init_def split: sum.splits)
  then have "e = OverflowError"
    unfolding Bottleneck_width_def
    by (auto split: sum.splits dest!: fi pi fd)
  then show ?thesis by simp
qed

lemma identity_blocks_Inl_cases:
  assumes "identity_blocks k blk self planes = Inl e"
  shows "e \<in> {BasicBlock_ValueError, Dilation_NotImplementedError, OverflowError}"
  using assms
proof (induction k)
  case 0
  then show ?case by simp
next
  case (Suc k)
  then show ?case
    by (auto split: sum.splits dest: construct_Inl)
qed

lemma make_layer_Inl:
  assumes "make_layer self blk planes blocks stride dilate = Inl e"
  shows "e \<in> {BasicBlock_ValueError, Dilation_NotImplementedError, OverflowError}"
proof -
  from assms consider i p s d g w dil where "construct blk i p s d g w dil = Inl e"
    | k self' where "identity_blocks k blk self' planes = Inl e"
    unfolding make_layer_def Let_def by (auto split: sum.splits)
  then show ?thesis
    by cases (auto dest: construct_Inl identity_blocks_Inl_cases)
qed


lemma and_then_Inl_in:
  assumes "and_then m f = Inl e"
    and "\<And>e. m = Inl e \<Longrightarrow> e \<in> S"
    and "\<And>x e. f x = Inl e \<Longrightarrow> e \<in> S"
  shows "e \<in> S"
  using assms by (cases m) (simp_all add: and_then_def)

lemma getitem_Inl: "getitem xs i = Inl e \<Longrightarrow> e = IndexError"
  by (simp add: getitem_def split: if_splits)

lemma ResNet_init_short_rswd:
  assumes "length xs \<noteq> 3"
  shows "ResNet_init blk layers nc z g w (Some xs) = Inl (Replace_stride_ValueError xs)"
  using assms by (simp add: ResNet_init_def)

lemma ResNet_init_Inl:
  assumes "ResNet_init blk layers nc z g w rswd = Inl e"
  shows "(\<exists>xs. rswd = Some xs \<and> length xs \<noteq> 3 \<and> e = Replace_stride_ValueError xs)
       \<or> e \<in> {IndexError, BasicBlock_ValueError, Dilation_NotImplementedError, OverflowError}"
proof (cases "length (case rswd of None \<Rightarrow> [False, False, False] | Some xs \<Rightarrow> xs) = 3")
  case False
  then obtain xs where "rswd = Some xs" "length xs \<noteq> 3"
    by (cases rswd) auto
  with assms show ?thesis by (simp add: ResNet_init_short_rswd)
next
  case True
  define S where "S = {IndexError, BasicBlock_ValueError, Dilation_NotImplementedError,
      OverflowError}"
  have g: "\<And>xs i e. getitem xs i = Inl e \<Longrightarrow> e \<in> S"
    by (auto simp: S_def dest: getitem_Inl)
  have m: "\<And>self blk planes blocks stride dilate e.
      make_layer self blk planes blocks stride dilate = Inl e \<Longrightarrow> e \<in> S"
    by (auto simp: S_def dest: make_layer_Inl)
  from assms True have "e \<in> S"
    unfolding ResNet_init_def Let_def
    apply simp
    apply ((erule and_then_Inl_in, (erule g | erule m), clarsimp?)+)
    done
  then have "e \<in> {IndexError, BasicBlock_ValueError, Dilation_NotImplementedError,
      OverflowError}" by (simp only: S_def)
  then show ?thesis by simp
qed

lemma ResNet_init_BasicBlock_dilate:
  "ResNet_init BasicBlock [k1, k2, k3, k4] nc z 1 64 (Some [d2, d3, d4])
     = Inl Dilation_NotImplementedError \<longleftrightarrow> d2 \<or> d3 \<or> (d4 \<and> 2 \<le> k4)"
  by (cases d2; cases d3; cases d4)
     (simp_all add: ResNet_init_def Let_def make_layer_BasicBlock numeral_2_eq_2 numeral_3_eq_3)

lemma ResNet_init_BasicBlock_ok:
  "\<exists>net. ResNet_init BasicBlock [k1, k2, k3, k4] nc z 1 64 None = Inr net"
  by (simp add: ResNet_init_def Let_def make_layer_BasicBlock numeral_2_eq_2 numeral_3_eq_3)

lemma ResNet_init_Bottleneck_ok:
  "\<exists>net. ResNet_init Bottleneck [k1, k2, k3, k4] nc z 1 64 None = Inr net"
  by (simp add: ResNet_init_def Let_def make_layer_Bottleneck numeral_2_eq_2 numeral_3_eq_3)

section \<open>Initial normalization scales\<close>

lemma construct_kind:
  assumes "construct blk i p s d g w dil = Inr b"
  shows "is_Bottleneck b \<longleftrightarrow> blk = Bottleneck"
  using assms
  by (cases blk)
     (auto simp: BasicBlock_init_def Bottleneck_init_def split: if_splits sum.splits)

lemma make_layer_kind:
  assumes "make_layer self blk planes blocks stride dilate = Inr (l, self')"
  shows "\<forall>b\<in>set l. is_Bottleneck b \<longleftrightarrow> blk = Bottleneck"
proof -
  from make_layer_Inr[OF assms] obtain b bs d where
    ls: "l = b # bs"
    and b: "construct blk (inplanes self) planes (if dilate then 1 else stride) d
       (groups self) (base_width self) (dilation self) = Inr b"
    and bs: "identity_blocks (nat (blocks - 1)) blk self' planes = Inr bs"
    by blast
  from identity_blocks_Inr[OF bs] construct_kind
  have "\<forall>c\<in>set bs. is_Bottleneck c \<longleftrightarrow> blk = Bottleneck" by blast
  with construct_kind[OF b] ls show ?thesis by simp
qed

lemma init_norm_weight [simp]: "bn_weight (init_norm n) = 1"
  by (simp add: init_norm_def)

lemma init_block_norms: "\<forall>n\<in>set (Block_norms (init_block b)). bn_weight n = 1"
  by (cases b)
     (auto simp: Downsample_norms_def init_downsample_def split: option.splits)

lemma init_block_kind [simp]: "is_Bottleneck (init_block b) = is_Bottleneck b"
  by (cases b) simp_all

lemma zero_init_block_kind [simp]: "is_Bottleneck (zero_init_block b) = is_Bottleneck b"
  by (cases b) simp_all

lemma zero_init_block_bn3: "is_Bottleneck b \<Longrightarrow> bn_weight (blk_bn3 (zero_init_block b)) = 0"
  by (cases b) simp_all

lemma zero_init_block_BasicBlock: "\<not> is_Bottleneck b \<Longrightarrow> zero_init_block b = b"
  by (cases b) simp_all

lemma layer_scales:
  assumes "make_layer self blk planes blocks stride dilate = Inr (l, self')"
  shows "z \<and> blk = Bottleneck \<longrightarrow>
           (\<forall>b\<in>set (map ((if z then zero_init_block else (\<lambda>b. b)) \<circ> init_block) l).
              is_Bottleneck b \<and> bn_weight (blk_bn3 b) = 0)"
    and "\<not> z \<or> blk = BasicBlock \<longrightarrow>
           (\<forall>b\<in>set (map ((if z then zero_init_block else (\<lambda>b. b)) \<circ> init_block) l).
              \<forall>n\<in>set (Block_norms b). bn_weight n = 1)"
proof -
  note kind = make_layer_kind[OF assms]
  show "z \<and> blk = Bottleneck \<longrightarrow>
           (\<forall>b\<in>set (map ((if z then zero_init_block else (\<lambda>b. b)) \<circ> init_block) l).
              is_Bottleneck b \<and> bn_weight (blk_bn3 b) = 0)"
    using kind by (auto simp: zero_init_block_bn3)
  show "\<not> z \<or> blk = BasicBlock \<longrightarrow>
           (\<forall>b\<in>set (map ((if z then zero_init_block else (\<lambda>b. b)) \<circ> init_block) l).
              \<forall>n\<in>set (Block_norms b). bn_weight n = 1)"
  proof (cases z)
    case False
    then show ?thesis using init_block_norms by auto
  next
    case True
    show ?thesis
    proof
      assume "\<not> z \<or> blk = BasicBlock"
      with True have "blk = BasicBlock" by simp
      with kind have "\<forall>b\<in>set l. zero_init_block (init_block b) = init_block b"
        by (simp add: zero_init_block_BasicBlock)
      then show "\<forall>b\<in>set (map ((if z then zero_init_block else (\<lambda>b. b)) \<circ> init_block) l).
              \<forall>n\<in>set (Block_norms b). bn_weight n = 1"
        using True init_block_norms by auto
    qed
  qed
qed

section \<open>Trainability flags\<close>

lemma Downsample_flags_set_grad:
  "Downsample_flags (Downsample_set_grad g d) = replicate (length (Downsample_flags d)) g"
  by (cases d)
     (auto simp: Downsample_flags_def Downsample_set_grad_def Conv2d_flags_def
        BatchNorm2d_flags_def Conv2d_set_grad_def BatchNorm2d_set_grad_def)

lemma Block_flags_set_grad:
  "Block_flags (Block_set_grad g b) = replicate (length (Block_flags b)) g"
  by (cases b)
     (simp_all add: Downsample_flags_set_grad Conv2d_flags_def BatchNorm2d_flags_def
        Conv2d_set_grad_def BatchNorm2d_set_grad_def replicate_add[symmetric]
        del: replicate_Suc, simp_all)

lemma layer_flags_set_grad:
  "concat (map (Block_flags \<circ> Block_set_grad g) bs)
     = replicate (length (concat (map Block_flags bs))) g"
  by (induction bs) (simp_all add: Block_flags_set_grad replicate_add)

lemma backbone_flags_set_grad:
  "backbone_flags (backbone_set_grad g net) = replicate (length (backbone_flags net)) g"
  by (simp add: backbone_flags_def backbone_set_grad_def layer_flags_set_grad
        Conv2d_flags_def BatchNorm2d_flags_def Conv2d_set_grad_def BatchNorm2d_set_grad_def
        replicate_add)

lemma fc_backbone_set_grad: "fc (backbone_set_grad g net) = fc net"
  by (simp add: backbone_set_grad_def)

lemma replicate_True_eq_iff: "replicate (length fs) True = fs \<longleftrightarrow> (\<forall>f\<in>set fs. f)"
  by (induction fs) auto


lemma construct_flags:
  assumes "construct blk i p s d g w dil = Inr b" and "\<forall>f\<in>set (Downsample_flags d). f"
  shows "\<forall>f\<in>set (Block_flags b). f"
  using assms
  by (cases blk)
     (auto simp: BasicBlock_init_def Bottleneck_init_def conv3x3_def conv1x1_def
        Conv2d_new_def BatchNorm2d_new_def Conv2d_flags_def BatchNorm2d_flags_def
        split: if_splits sum.splits)

lemma make_layer_flags:
  assumes "make_layer self blk planes blocks stride dilate = Inr (l, self')"
  shows "\<forall>b\<in>set l. \<forall>f\<in>set (Block_flags b). f"
proof -
  from make_layer_Inr[OF assms] obtain b bs where
    ls: "l = b # bs"
    and b: "construct blk (inplanes self) planes (if dilate then 1 else stride)
       (if (if dilate then 1 else stride) \<noteq> 1 \<or> inplanes self \<noteq> planes * expansion blk
        then Some (conv1x1 (inplanes self) (planes * expansion blk)
                     (if dilate then 1 else stride),
                   BatchNorm2d_new (planes * expansion blk))
        else None)
       (groups self) (base_width self) (dilation self) = Inr b"
    and bs: "identity_blocks (nat (blocks - 1)) blk self' planes = Inr bs"
    by blast
  have "\<forall>f\<in>set (Block_flags b). f"
    by (rule construct_flags[OF b])
       (simp add: Downsample_flags_def conv1x1_def Conv2d_new_def BatchNorm2d_new_def
          Conv2d_flags_def BatchNorm2d_flags_def)
  moreover have "\<forall>c\<in>set bs. \<forall>f\<in>set (Block_flags c). f"
  proof
    fix c assume "c \<in> set bs"
    with identity_blocks_Inr[OF bs]
    have "construct blk (inplanes self') planes 1 None (groups self') (base_width self')
            (dilation self') = Inr c" by blast
    then show "\<forall>f\<in>set (Block_flags c). f"
      by (rule construct_flags) (simp add: Downsample_flags_def)
  qed
  ultimately show ?thesis by (simp add: ls)
qed

lemma init_block_flags [simp]: "Block_flags (init_block b) = Block_flags b"
  by (cases b)
     (auto simp: init_norm_def init_downsample_def Downsample_flags_def Conv2d_flags_def
        BatchNorm2d_flags_def split: option.splits)

lemma zero_init_block_flags [simp]: "Block_flags (zero_init_block b) = Block_flags b"
  by (cases b) (simp_all add: BatchNorm2d_flags_def)

lemma ResNet_init_flags:
  assumes "ResNet_init blk layers nc z g w rswd = Inr net"
  shows "\<forall>f\<in>set (backbone_flags net). f"
proof -
  let ?f = "(if z then zero_init_block else (\<lambda>b. b)) \<circ> init_block"
  from ResNet_init_Inr[OF assms] obtain k1 k2 k3 k4 d2 d3 d4 l1 l2 l3 l4
    self1 self2 self3 self4 where
    m1: "make_layer \<lparr>inplanes = 64, dilation = 1, groups = g, base_width = w\<rparr> blk 64 k1 1 False
       = Inr (l1, self1)"
    and m2: "make_layer self1 blk 128 k2 2 d2 = Inr (l2, self2)"
    and m3: "make_layer self2 blk 256 k3 2 d3 = Inr (l3, self3)"
    and m4: "make_layer self3 blk 512 k4 2 d4 = Inr (l4, self4)"
    and net: "net = \<lparr>self_builder = self4, block = blk, conv1 = Conv2d_new 3 64 7 2 3 1 1,
            bn1 = init_norm (BatchNorm2d_new 64),
            layer1 = map ?f l1, layer2 = map ?f l2, layer3 = map ?f l3, layer4 = map ?f l4,
            fc = Linear_new (512 * expansion blk) nc\<rparr>"
    by blast
  have f: "\<And>l. (\<forall>b\<in>set l. \<forall>f\<in>set (Block_flags b). f)
      \<Longrightarrow> \<forall>f\<in>set (concat (map Block_flags (map ?f l))). f"
    by auto
  have c: "\<forall>f\<in>set (Conv2d_flags (conv1 net)). f"
    by (simp add: net Conv2d_new_def Conv2d_flags_def)
  have n: "\<forall>f\<in>set (BatchNorm2d_flags (bn1 net)). f"
    by (simp add: net BatchNorm2d_new_def init_norm_def BatchNorm2d_flags_def)
  have 1: "\<forall>f\<in>set (concat (map Block_flags (layer1 net))). f"
    using f[OF make_layer_flags[OF m1]] by (simp only: net ResNet.simps)
  have 2: "\<forall>f\<in>set (concat (map Block_flags (layer2 net))). f"
    using f[OF make_layer_flags[OF m2]] by (simp only: net ResNet.simps)
  have 3: "\<forall>f\<in>set (concat (map Block_flags (layer3 net))). f"
    using f[OF make_layer_flags[OF m3]] by (simp only: net ResNet.simps)
  have 4: "\<forall>f\<in>set (concat (map Block_flags (layer4 net))). f"
    using f[OF make_layer_flags[OF m4]] by (simp only: net ResNet.simps)
  from c n 1 2 3 4 show ?thesis
    unfolding backbone_flags_def by (simp only: set_append ball_Un simp_thms)
qed

lemma resnet_1111: "ResNet_init BasicBlock [1, 1, 1, 1] 1000 False 1 64 None = Inr resnet_1111"
  using ResNet_init_BasicBlock_ok[of 1 1 1 1 1000 False]
  by (auto simp: resnet_1111_def)

section \<open>The shape of a preset\<close>

lemma ResNet_init_fields:
  assumes "ResNet_init blk layers nc z g w rswd = Inr net"
  shows "block net = blk" and "fc net = Linear_new (512 * expansion blk) nc"
  using ResNet_init_Inr[OF assms] by auto

lemma preset_shape:
  assumes "\<And>load pretrained num_classes.
     preset load pretrained num_classes =
       and_then (ResNet_init blk layers 1000 False 1 64 None) (\<lambda>model.
       and_then (if pretrained then load url model else Inr model) (\<lambda>model.
         Inr (if num_classes \<noteq> 1000
              then model\<lparr>fc := Linear_new (512 * expansion (block model)) num_classes\<rparr>
              else model)))"
    and "\<exists>net. ResNet_init blk layers 1000 False 1 64 None = Inr net"
  shows "(\<exists>m0. preset load False 1000 = Inr m0 \<and> block m0 = blk
            \<and> fc m0 = Linear_new (512 * expansion blk) 1000)
       \<and> (\<forall>m0. preset load pretrained 1000 = Inr m0 \<longrightarrow>
            (\<exists>m. preset load pretrained nc = Inr m
               \<and> m = (if nc \<noteq> 1000
                      then m0\<lparr>fc := Linear_new (512 * expansion (block m0)) nc\<rparr> else m0)
               \<and> conv1 m = conv1 m0 \<and> bn1 m = bn1 m0
               \<and> layer1 m = layer1 m0 \<and> layer2 m = layer2 m0
               \<and> layer3 m = layer3 m0 \<and> layer4 m = layer4 m0
               \<and> fc m = (if nc \<noteq> 1000
                         then Linear_new (512 * expansion (block m0)) nc else fc m0)
               \<and> (nc \<noteq> 1000 \<and> block m0 = blk \<longrightarrow>
                    in_features (fc m) = 512 * expansion blk \<and> out_features (fc m) = nc)))
       \<and> (\<forall>e. preset load pretrained 1000 = Inl e \<longrightarrow> preset load pretrained nc = Inl e)"
proof -
  from assms(2) obtain net where net: "ResNet_init blk layers 1000 False 1 64 None = Inr net"
    by blast
  note f = ResNet_init_fields[OF net]
  show ?thesis
  proof (cases "if pretrained then load url net else Inr net")
    case (Inl e)
    then show ?thesis by (simp add: assms(1) net f)
  next
    case (Inr m')
    then show ?thesis by (simp add: assms(1) net f Linear_new_def)
  qed
qed

section \<open>Properties\<close>

text \<open>
  C4. Constructing a \<^verbatim>\<open>BasicBlock\<close> raises exactly when \<open>groups \<noteq> 1\<close>, or
  \<open>base_width \<noteq> 64\<close>, or \<open>dilation > 1\<close>; it succeeds exactly when \<open>groups = 1\<close>,
  \<open>base_width = 64\<close> and \<open>dilation \<le> 1\<close>.
\<close>

theorem BasicBlock_init_raises_iff:
  "((\<exists>e. BasicBlock_init i p s ds g w d = Inl e) \<longleftrightarrow> (g \<noteq> 1 \<or> w \<noteq> 64 \<or> d > 1))
   \<and> ((\<exists>b. BasicBlock_init i p s ds g w d = Inr b) \<longleftrightarrow> (g = 1 \<and> w = 64 \<and> d \<le> 1))"
  by (auto simp: BasicBlock_init_def)

theorem BasicBlock_init_raises_iff_witness:
  "(\<exists>e. BasicBlock_init 64 64 1 None 2 64 1 = Inl e)
   \<and> (\<exists>e. BasicBlock_init 64 64 1 None 1 32 1 = Inl e)
   \<and> (\<exists>e. BasicBlock_init 64 64 1 None 1 64 2 = Inl e)
   \<and> (\<exists>b. BasicBlock_init 64 64 1 None 1 64 1 = Inr b)"
  using BasicBlock_init_raises_iff [of 64 64 1 None 2 64 1]
    BasicBlock_init_raises_iff [of 64 64 1 None 1 32 1]
    BasicBlock_init_raises_iff [of 64 64 1 None 1 64 2]
    BasicBlock_init_raises_iff [of 64 64 1 None 1 64 1]
  by simp

text \<open>
  C1. Whenever the stage builder returns a stage, block #1 carries a projection shortcut (a
  1x1 convolution and a normalization) if and only if the effective stride, which is 1
  when \<open>dilate\<close> is set and the requested stride otherwise, differs from 1 or the
  running input-channel count differs from \<open>planes * expansion\<close>; the running
  input-channel count is \<open>planes * expansion\<close> afterwards, and so is the channel count
  leaving every block of the stage.
\<close>

theorem make_layer_shortcut_and_width:
  assumes "make_layer self blk planes blocks stride dilate = Inr (layers, self')"
  shows "(blk_downsample (hd layers) \<noteq> None \<longleftrightarrow>
            ((if dilate then 1 else stride) \<noteq> 1 \<or> inplanes self \<noteq> planes * expansion blk))
       \<and> blk_downsample (hd layers) =
           (if (if dilate then 1 else stride) \<noteq> 1 \<or> inplanes self \<noteq> planes * expansion blk
            then Some (conv1x1 (inplanes self) (planes * expansion blk)
                         (if dilate then 1 else stride),
                       BatchNorm2d_new (planes * expansion blk))
            else None)
       \<and> inplanes self' = planes * expansion blk
       \<and> layers \<noteq> []
       \<and> (\<forall>b\<in>set layers. block_out_channels b = planes * expansion blk)"
proof -
  from make_layer_Inr[OF assms] obtain b bs where
    ls: "layers = b # bs"
    and b: "construct blk (inplanes self) planes (if dilate then 1 else stride)
       (if (if dilate then 1 else stride) \<noteq> 1 \<or> inplanes self \<noteq> planes * expansion blk
        then Some (conv1x1 (inplanes self) (planes * expansion blk)
                     (if dilate then 1 else stride),
                   BatchNorm2d_new (planes * expansion blk))
        else None)
       (groups self) (base_width self) (dilation self) = Inr b"
    and bs: "identity_blocks (nat (blocks - 1)) blk self' planes = Inr bs"
    and self': "self' = self\<lparr>dilation := (if dilate then dilation self * stride
                                         else dilation self),
                           inplanes := planes * expansion blk\<rparr>"
    by blast
  have d: "blk_downsample (hd layers) =
           (if (if dilate then 1 else stride) \<noteq> 1 \<or> inplanes self \<noteq> planes * expansion blk
            then Some (conv1x1 (inplanes self) (planes * expansion blk)
                         (if dilate then 1 else stride),
                       BatchNorm2d_new (planes * expansion blk))
            else None)"
    using construct_Inr(1)[OF b] ls by simp
  have iff: "blk_downsample (hd layers) \<noteq> None \<longleftrightarrow>
           ((if dilate then 1 else stride) \<noteq> 1 \<or> inplanes self \<noteq> planes * expansion blk)"
    unfolding d by simp
  have w: "inplanes self' = planes * expansion blk"
    by (simp add: self')
  have "block_out_channels b = planes * expansion blk"
    by (rule construct_Inr(3)[OF b])
  moreover have "\<forall>c\<in>set bs. block_out_channels c = planes * expansion blk"
    using identity_blocks_Inr[OF bs] construct_Inr(3) by blast
  ultimately have out: "\<forall>b\<in>set layers. block_out_channels b = planes * expansion blk"
    by (simp add: ls)
  from iff d w out ls show ?thesis by blast
qed

theorem make_layer_shortcut_and_width_witness:
  "\<exists>layers self'.
     make_layer \<lparr>inplanes = 64, dilation = 1, groups = 1, base_width = 64\<rparr>
       Bottleneck 128 3 2 False = Inr (layers, self')
     \<and> blk_downsample (hd layers) = Some (conv1x1 64 512 2, BatchNorm2d_new 512)
     \<and> inplanes self' = 512
     \<and> list_all (\<lambda>b. block_out_channels b = 512) layers"
proof -
  let ?self = "\<lparr>inplanes = 64, dilation = 1, groups = 1, base_width = 64\<rparr>"
  have "\<exists>layers self'. make_layer ?self Bottleneck 128 3 2 False = Inr (layers, self')"
    by (subst make_layer_eval) (simp_all add: Bottleneck_init_exact)
  then obtain layers self' where
    eq: "make_layer ?self Bottleneck 128 3 2 False = Inr (layers, self')" by blast
  from make_layer_shortcut_and_width[OF eq] eq show ?thesis
    by (simp add: list_all_iff)
qed

text \<open>
  C2. Whenever the stage builder returns a stage: with \<open>dilate\<close> set the running dilation
  has been multiplied by the requested stride and the effective stride is 1; block #1 is
  the block constructed with the effective stride and the dilation held on entry; there
  are \<open>blocks - 1\<close> further blocks (none when \<open>blocks \<le> 1\<close>), each of them the block
  constructed with stride 1, no shortcut and the running dilation held on exit. In a
  \<^verbatim>\<open>Bottleneck\<close> the dilation passed is the dilation of the 3x3 convolution; a
  \<^verbatim>\<open>BasicBlock\<close> only accepts a dilation of at most 1.
\<close>

theorem make_layer_dilation:
  assumes "make_layer self blk planes blocks stride dilate = Inr (layers, self')"
  shows "dilation self' = (if dilate then dilation self * stride else dilation self)
       \<and> blk_stride (hd layers) = (if dilate then 1 else stride)
       \<and> construct blk (inplanes self) planes (if dilate then 1 else stride)
            (blk_downsample (hd layers)) (groups self) (base_width self) (dilation self)
           = Inr (hd layers)
       \<and> length layers = Suc (nat (blocks - 1))
       \<and> (\<forall>b\<in>set (tl layers).
             construct blk (planes * expansion blk) planes 1 None (groups self)
               (base_width self) (dilation self') = Inr b
             \<and> blk_stride b = 1 \<and> blk_downsample b = None)
       \<and> (blk = Bottleneck \<longrightarrow>
             conv_dilation (blk_conv2 (hd layers)) = dilation self
             \<and> (\<forall>b\<in>set (tl layers). conv_dilation (blk_conv2 b) = dilation self'))
       \<and> (blk = BasicBlock \<longrightarrow> dilation self \<le> 1 \<and> (2 \<le> blocks \<longrightarrow> dilation self' \<le> 1))"
proof -
  from make_layer_Inr[OF assms] obtain b bs where
    ls: "layers = b # bs"
    and b: "construct blk (inplanes self) planes (if dilate then 1 else stride)
       (if (if dilate then 1 else stride) \<noteq> 1 \<or> inplanes self \<noteq> planes * expansion blk
        then Some (conv1x1 (inplanes self) (planes * expansion blk)
                     (if dilate then 1 else stride),
                   BatchNorm2d_new (planes * expansion blk))
        else None)
       (groups self) (base_width self) (dilation self) = Inr b"
    and bs: "identity_blocks (nat (blocks - 1)) blk self' planes = Inr bs"
    and self': "self' = self\<lparr>dilation := (if dilate then dilation self * stride
                                         else dilation self),
                           inplanes := planes * expansion blk\<rparr>"
    by blast
  have 1: "dilation self' = (if dilate then dilation self * stride else dilation self)"
    by (simp add: self')
  have 2: "blk_stride (hd layers) = (if dilate then 1 else stride)"
    using construct_Inr(2)[OF b] ls by simp
  have 3: "construct blk (inplanes self) planes (if dilate then 1 else stride)
            (blk_downsample (hd layers)) (groups self) (base_width self) (dilation self)
           = Inr (hd layers)"
    using b construct_Inr(1)[OF b] ls by simp
  have len: "length bs = nat (blocks - 1)"
    and tl: "\<forall>c\<in>set bs. construct blk (inplanes self') planes 1 None (groups self')
            (base_width self') (dilation self') = Inr c"
    using identity_blocks_Inr[OF bs] by simp_all
  have 4: "length layers = Suc (nat (blocks - 1))"
    by (simp add: ls len)
  have tl': "\<forall>c\<in>set bs. construct blk (planes * expansion blk) planes 1 None (groups self)
            (base_width self) (dilation self') = Inr c"
    using tl by (simp add: self')
  have 5: "\<forall>b\<in>set (tl layers).
             construct blk (planes * expansion blk) planes 1 None (groups self)
               (base_width self) (dilation self') = Inr b
             \<and> blk_stride b = 1 \<and> blk_downsample b = None"
    using tl' construct_Inr(1,2) by (simp add: ls) blast
  have 6: "blk = Bottleneck \<longrightarrow>
             conv_dilation (blk_conv2 (hd layers)) = dilation self
             \<and> (\<forall>b\<in>set (tl layers). conv_dilation (blk_conv2 b) = dilation self')"
  proof
    assume blk: "blk = Bottleneck"
    have "conv_dilation (blk_conv2 b) = dilation self"
      using b unfolding blk by (rule construct_Bottleneck_dilation)
    moreover have "\<forall>c\<in>set bs. conv_dilation (blk_conv2 c) = dilation self'"
      using tl' unfolding blk by (blast intro: construct_Bottleneck_dilation)
    ultimately show "conv_dilation (blk_conv2 (hd layers)) = dilation self
             \<and> (\<forall>b\<in>set (tl layers). conv_dilation (blk_conv2 b) = dilation self')"
      by (simp add: ls)
  qed
  have 7: "blk = BasicBlock \<longrightarrow> dilation self \<le> 1 \<and> (2 \<le> blocks \<longrightarrow> dilation self' \<le> 1)"
  proof
    assume blk: "blk = BasicBlock"
    have "dilation self \<le> 1"
      using b unfolding blk by (rule construct_BasicBlock_dilation)
    moreover have "2 \<le> blocks \<longrightarrow> dilation self' \<le> 1"
    proof
      assume "2 \<le> blocks"
      then have "bs \<noteq> []" using len by auto
      then obtain c where "c \<in> set bs" by (cases bs) auto
      with tl' show "dilation self' \<le> 1"
        unfolding blk by (blast intro: construct_BasicBlock_dilation)
    qed
    ultimately show "dilation self \<le> 1 \<and> (2 \<le> blocks \<longrightarrow> dilation self' \<le> 1)" by simp
  qed
  from 1 2 3 4 5 6 7 show ?thesis by blast
qed


theorem make_layer_dilation_witness:
  "\<exists>layers self'.
     make_layer \<lparr>inplanes = 512, dilation = 1, groups = 1, base_width = 64\<rparr>
       Bottleneck 256 3 2 True = Inr (layers, self')
     \<and> dilation self' = 2
     \<and> blk_stride (hd layers) = 1
     \<and> conv_dilation (blk_conv2 (hd layers)) = 1
     \<and> length layers = 3
     \<and> list_all (\<lambda>b. blk_stride b = 1 \<and> blk_downsample b = None
                      \<and> conv_dilation (blk_conv2 b) = 2) (tl layers)"
proof -
  let ?self = "\<lparr>inplanes = 512, dilation = 1, groups = 1, base_width = 64\<rparr>"
  have "\<exists>layers self'. make_layer ?self Bottleneck 256 3 2 True = Inr (layers, self')"
    by (subst make_layer_eval) (simp_all add: Bottleneck_init_exact)
  then obtain layers self' where
    eq: "make_layer ?self Bottleneck 256 3 2 True = Inr (layers, self')" by blast
  from make_layer_dilation[OF eq] eq show ?thesis
    by (simp add: list_all_iff)
qed

text \<open>
  C7, as amended. The error about the dilate-flag configuration is raised exactly when a
  configuration was supplied and it does not have exactly three entries. Nothing else
  about the call matters to it: the block template, the repeat counts and the other
  options are arbitrary, so it is raised before any stage is built. Construction can
  fail for other reasons with a three-entry configuration: the plain block with the
  first flag set, or with two groups, below.
\<close>

theorem ResNet_init_flag_count:
  "ResNet_init blk layers nc z g w rswd = Inl (Replace_stride_ValueError xs)
     \<longleftrightarrow> rswd = Some xs \<and> length xs \<noteq> 3"
proof
  assume "ResNet_init blk layers nc z g w rswd = Inl (Replace_stride_ValueError xs)"
  from ResNet_init_Inl[OF this] show "rswd = Some xs \<and> length xs \<noteq> 3" by auto
next
  assume "rswd = Some xs \<and> length xs \<noteq> 3"
  then show "ResNet_init blk layers nc z g w rswd = Inl (Replace_stride_ValueError xs)"
    by (simp add: ResNet_init_short_rswd)
qed

theorem ResNet_init_flag_count_witness:
  "ResNet_init Bottleneck [3, 4, 6, 3] 1000 False 1 64 (Some [True, False])
     = Inl (Replace_stride_ValueError [True, False])"
  using ResNet_init_flag_count [of Bottleneck "[3, 4, 6, 3]" 1000 False 1 64
      "Some [True, False]" "[True, False]"]
  by simp

theorem ResNet_init_flag_count_counterexample:
  "length [True, False, False] = 3
   \<and> ResNet_init BasicBlock [2, 2, 2, 2] 1000 False 1 64 (Some [True, False, False])
       = Inl Dilation_NotImplementedError
   \<and> ResNet_init BasicBlock [2, 2, 2, 2] 1000 False 2 64 (Some [False, False, False])
       = Inl BasicBlock_ValueError"
  by (simp add: ResNet_init_def Let_def make_layer_BasicBlock)

text \<open>
  C6. In a network that was constructed with \<open>zero_init_residual\<close> from the
  \<^verbatim>\<open>Bottleneck\<close> template, every block is a bottleneck whose last normalization scale
  is 0. In a network constructed without it, or from the \<^verbatim>\<open>BasicBlock\<close> template,
  every normalization scale is 1: the stem's, those of the blocks and those of the
  shortcuts. A network has at least one block.
\<close>

theorem zero_init_residual_scales:
  assumes "ResNet_init blk layers nc z g w rswd = Inr net"
  shows "(z \<and> blk = Bottleneck \<longrightarrow>
            (\<forall>b\<in>set (ResNet_blocks net). is_Bottleneck b \<and> bn_weight (blk_bn3 b) = 0))
       \<and> (\<not> z \<or> blk = BasicBlock \<longrightarrow> (\<forall>n\<in>set (ResNet_norms net). bn_weight n = 1))
       \<and> (\<forall>b\<in>set (ResNet_blocks net). is_Bottleneck b \<longleftrightarrow> blk = Bottleneck)
       \<and> ResNet_blocks net \<noteq> []"
proof -
  let ?f = "(if z then zero_init_block else (\<lambda>b. b)) \<circ> init_block"
  from ResNet_init_Inr[OF assms] obtain k1 k2 k3 k4 d2 d3 d4 l1 l2 l3 l4
    self1 self2 self3 self4 where
    m1: "make_layer \<lparr>inplanes = 64, dilation = 1, groups = g, base_width = w\<rparr> blk 64 k1 1 False
       = Inr (l1, self1)"
    and m2: "make_layer self1 blk 128 k2 2 d2 = Inr (l2, self2)"
    and m3: "make_layer self2 blk 256 k3 2 d3 = Inr (l3, self3)"
    and m4: "make_layer self3 blk 512 k4 2 d4 = Inr (l4, self4)"
    and net: "net = \<lparr>self_builder = self4, block = blk, conv1 = Conv2d_new 3 64 7 2 3 1 1,
            bn1 = init_norm (BatchNorm2d_new 64),
            layer1 = map ?f l1, layer2 = map ?f l2, layer3 = map ?f l3, layer4 = map ?f l4,
            fc = Linear_new (512 * expansion blk) nc\<rparr>"
    by blast
  have blocks: "ResNet_blocks net = map ?f l1 @ map ?f l2 @ map ?f l3 @ map ?f l4"
    by (simp add: net ResNet_blocks_def)
  have 1: "z \<and> blk = Bottleneck \<longrightarrow>
            (\<forall>b\<in>set (ResNet_blocks net). is_Bottleneck b \<and> bn_weight (blk_bn3 b) = 0)"
    unfolding blocks
    using layer_scales(1)[OF m1, of z] layer_scales(1)[OF m2, of z]
      layer_scales(1)[OF m3, of z] layer_scales(1)[OF m4, of z]
    by (simp only: set_append ball_Un) blast
  have "\<not> z \<or> blk = BasicBlock \<longrightarrow>
          (\<forall>b\<in>set (ResNet_blocks net). \<forall>n\<in>set (Block_norms b). bn_weight n = 1)"
    unfolding blocks
    using layer_scales(2)[OF m1, of z] layer_scales(2)[OF m2, of z]
      layer_scales(2)[OF m3, of z] layer_scales(2)[OF m4, of z]
    by (simp only: set_append ball_Un) blast
  moreover have "bn_weight (bn1 net) = 1" by (simp add: net)
  ultimately have 2: "\<not> z \<or> blk = BasicBlock \<longrightarrow> (\<forall>n\<in>set (ResNet_norms net). bn_weight n = 1)"
    by (auto simp: ResNet_norms_def)
  have "\<forall>b\<in>set (l1 @ l2 @ l3 @ l4). is_Bottleneck b \<longleftrightarrow> blk = Bottleneck"
    using make_layer_kind[OF m1] make_layer_kind[OF m2] make_layer_kind[OF m3]
      make_layer_kind[OF m4]
    by (simp only: set_append ball_Un)
  then have 3: "\<forall>b\<in>set (ResNet_blocks net). is_Bottleneck b \<longleftrightarrow> blk = Bottleneck"
    unfolding blocks by (cases z) auto
  from make_layer_Inr[OF m1] have "l1 \<noteq> []" by auto
  then have 4: "ResNet_blocks net \<noteq> []" by (simp add: blocks)
  from 1 2 3 4 show ?thesis by blast
qed

theorem zero_init_residual_scales_witness:
  "(\<exists>net. ResNet_init Bottleneck [3, 4, 6, 3] 1000 True 1 64 None = Inr net
      \<and> list_all (\<lambda>b. is_Bottleneck b \<and> bn_weight (blk_bn3 b) = 0) (ResNet_blocks net)
      \<and> ResNet_blocks net \<noteq> [])
   \<and> (\<exists>net. ResNet_init Bottleneck [3, 4, 6, 3] 1000 False 1 64 None = Inr net
      \<and> list_all (\<lambda>n. bn_weight n = 1) (ResNet_norms net))
   \<and> (\<exists>net. ResNet_init BasicBlock [2, 2, 2, 2] 1000 True 1 64 None = Inr net
      \<and> list_all (\<lambda>n. bn_weight n = 1) (ResNet_norms net))"
proof -
  obtain n1 where n1: "ResNet_init Bottleneck [3, 4, 6, 3] 1000 True 1 64 None = Inr n1"
    using ResNet_init_Bottleneck_ok by blast
  obtain n2 where n2: "ResNet_init Bottleneck [3, 4, 6, 3] 1000 False 1 64 None = Inr n2"
    using ResNet_init_Bottleneck_ok by blast
  obtain n3 where n3: "ResNet_init BasicBlock [2, 2, 2, 2] 1000 True 1 64 None = Inr n3"
    using ResNet_init_BasicBlock_ok by blast
  from zero_init_residual_scales[OF n1] zero_init_residual_scales[OF n2]
    zero_init_residual_scales[OF n3] n1 n2 n3
  show ?thesis by (simp add: list_all_iff)
qed

text \<open>
  C10. With the \<^verbatim>\<open>BasicBlock\<close> template, one group and base width 64, four repeat
  counts and three dilate flags, construction raises the block's dilation error exactly
  when the flag of stage 2 or of stage 3 is set (a stage follows, whose first block
  receives the inflated dilation) or the flag of stage 4 is set and stage 4 has at least
  two blocks. With any other groups or base width construction fails as well under that
  condition. For the repeat counts \<open>[2, 2, 2, 2]\<close> and \<open>[3, 4, 6, 3]\<close> of the presets,
  any flag set makes construction raise the dilation error.
\<close>

theorem BasicBlock_dilate_flags_fail:
  "(ResNet_init BasicBlock [k1, k2, k3, k4] nc z 1 64 (Some [d2, d3, d4])
        = Inl Dilation_NotImplementedError
      \<longleftrightarrow> d2 \<or> d3 \<or> (d4 \<and> 2 \<le> k4))
   \<and> (d2 \<or> d3 \<or> (d4 \<and> 2 \<le> k4) \<longrightarrow>
        (\<exists>e. ResNet_init BasicBlock [k1, k2, k3, k4] nc z g w (Some [d2, d3, d4]) = Inl e))
   \<and> (ks \<in> {[2, 2, 2, 2], [3, 4, 6, 3]} \<and> (d2 \<or> d3 \<or> d4) \<longrightarrow>
        ResNet_init BasicBlock ks nc z 1 64 (Some [d2, d3, d4])
          = Inl Dilation_NotImplementedError)"
proof (intro conjI impI)
  show "ResNet_init BasicBlock [k1, k2, k3, k4] nc z 1 64 (Some [d2, d3, d4])
        = Inl Dilation_NotImplementedError
      \<longleftrightarrow> d2 \<or> d3 \<or> (d4 \<and> 2 \<le> k4)"
    by (rule ResNet_init_BasicBlock_dilate)
next
  assume c: "d2 \<or> d3 \<or> (d4 \<and> 2 \<le> k4)"
  show "\<exists>e. ResNet_init BasicBlock [k1, k2, k3, k4] nc z g w (Some [d2, d3, d4]) = Inl e"
  proof (cases "g = 1 \<and> w = 64")
    case True
    with c ResNet_init_BasicBlock_dilate[of k1 k2 k3 k4 nc z d2 d3 d4] show ?thesis
      by blast
  next
    case False
    then have "ResNet_init BasicBlock [k1, k2, k3, k4] nc z g w (Some [d2, d3, d4])
        = Inl BasicBlock_ValueError"
      by (auto simp add: ResNet_init_def Let_def make_layer_BasicBlock)
    then show ?thesis by blast
  qed
next
  assume "ks \<in> {[2, 2, 2, 2], [3, 4, 6, 3]} \<and> (d2 \<or> d3 \<or> d4)"
  then show "ResNet_init BasicBlock ks nc z 1 64 (Some [d2, d3, d4])
          = Inl Dilation_NotImplementedError"
    using ResNet_init_BasicBlock_dilate[of 2 2 2 2 nc z d2 d3 d4]
      ResNet_init_BasicBlock_dilate[of 3 4 6 3 nc z d2 d3 d4]
    by auto
qed

theorem BasicBlock_dilate_flags_fail_witness:
  "ResNet_init BasicBlock [2, 2, 2, 2] 1000 False 1 64 (Some [False, False, True])
     = Inl Dilation_NotImplementedError
   \<and> ResNet_init BasicBlock [3, 4, 6, 3] 1000 False 1 64 (Some [True, False, False])
     = Inl Dilation_NotImplementedError
   \<and> ResNet_init BasicBlock [1, 1, 1, 1] 1000 False 1 64 (Some [False, True, False])
     = Inl Dilation_NotImplementedError
   \<and> ResNet_init BasicBlock [2, 2, 2, 1] 1000 False 1 64 (Some [False, False, True])
     \<noteq> Inl Dilation_NotImplementedError"
  using BasicBlock_dilate_flags_fail [of 2 2 2 2 1000 False False False True 1 64 "[2, 2, 2, 2]"]
    BasicBlock_dilate_flags_fail [of 3 4 6 3 1000 False True False False 1 64 "[3, 4, 6, 3]"]
    BasicBlock_dilate_flags_fail [of 1 1 1 1 1000 False False True False 1 64 "[2, 2, 2, 2]"]
    BasicBlock_dilate_flags_fail [of 2 2 2 1 1000 False False False True 1 64 "[2, 2, 2, 2]"]
  by simp

text \<open>
  C3, as amended. Freezing and unfreezing leave the classifier head unchanged. Freezing
  sets the flag of every backbone parameter to false, and unfreezing after it sets every
  one to true: the flags are the ones held before the freeze exactly when every backbone
  parameter was trainable then, which is the case for a network as constructed.
\<close>

theorem freeze_unfreeze_flags:
  "fc (freeze_backbone net) = fc net
   \<and> fc (Unfreeze_backbone net) = fc net
   \<and> head_flags (freeze_backbone net) = head_flags net
   \<and> head_flags (Unfreeze_backbone net) = head_flags net
   \<and> backbone_flags (freeze_backbone net) = replicate (length (backbone_flags net)) False
   \<and> backbone_flags (Unfreeze_backbone (freeze_backbone net))
       = replicate (length (backbone_flags net)) True
   \<and> (backbone_flags (Unfreeze_backbone (freeze_backbone net)) = backbone_flags net
        \<longleftrightarrow> (\<forall>f\<in>set (backbone_flags net). f))
   \<and> (ResNet_init blk layers nc z g w rswd = Inr net \<longrightarrow>
        backbone_flags (Unfreeze_backbone (freeze_backbone net)) = backbone_flags net)"
proof -
  have 1: "backbone_flags (Unfreeze_backbone (freeze_backbone net))
       = replicate (length (backbone_flags net)) True"
    by (simp add: Unfreeze_backbone_def freeze_backbone_def backbone_flags_set_grad)
  have 2: "backbone_flags (Unfreeze_backbone (freeze_backbone net)) = backbone_flags net
        \<longleftrightarrow> (\<forall>f\<in>set (backbone_flags net). f)"
    unfolding 1 by (rule replicate_True_eq_iff)
  have 3: "ResNet_init blk layers nc z g w rswd = Inr net \<longrightarrow>
        backbone_flags (Unfreeze_backbone (freeze_backbone net)) = backbone_flags net"
    using 2 ResNet_init_flags by blast
  show ?thesis
    using 1 2 3
    by (simp add: Unfreeze_backbone_def freeze_backbone_def backbone_flags_set_grad
          fc_backbone_set_grad head_flags_def)
qed

theorem freeze_unfreeze_flags_witness:
  "ResNet_init BasicBlock [1, 1, 1, 1] 1000 False 1 64 None = Inr resnet_1111
   \<and> fc (freeze_backbone resnet_1111) = fc resnet_1111
   \<and> backbone_flags (Unfreeze_backbone (freeze_backbone resnet_1111))
       = backbone_flags resnet_1111"
  using freeze_unfreeze_flags [of resnet_1111 BasicBlock "[1, 1, 1, 1]" 1000 False 1 64 None]
    resnet_1111
  by blast

theorem freeze_unfreeze_counterexample:
  "ResNet_init BasicBlock [1, 1, 1, 1] 1000 False 1 64 None = Inr resnet_1111
   \<and> stem_frozen_net = resnet_1111\<lparr>conv1 := (conv1 resnet_1111)\<lparr>weight_requires_grad := False\<rparr>\<rparr>
   \<and> hd (backbone_flags stem_frozen_net) = False
   \<and> hd (backbone_flags (Unfreeze_backbone (freeze_backbone stem_frozen_net))) = True
   \<and> backbone_flags (Unfreeze_backbone (freeze_backbone stem_frozen_net))
       \<noteq> backbone_flags stem_frozen_net"
proof -
  have a: "hd (backbone_flags stem_frozen_net) = False"
    by (simp add: stem_frozen_net_def backbone_flags_def Conv2d_flags_def Conv2d_set_grad_def)
  have b: "hd (backbone_flags (Unfreeze_backbone (freeze_backbone stem_frozen_net))) = True"
    by (simp add: Unfreeze_backbone_def freeze_backbone_def backbone_set_grad_def
          backbone_flags_def Conv2d_flags_def Conv2d_set_grad_def)
  from a b have "backbone_flags (Unfreeze_backbone (freeze_backbone stem_frozen_net))
       \<noteq> backbone_flags stem_frozen_net" by metis
  with a b resnet_1111 show ?thesis
    by (simp add: stem_frozen_net_def Conv2d_set_grad_def)
qed

text \<open>
  C8. For each of the five presets: without a state dict (\<open>pretrained\<close> false) the
  construction succeeds, with the preset's block template and a head of input width
  \<open>512 * expansion\<close> (512 for the two \<^verbatim>\<open>BasicBlock\<close> presets, 2048 for the three
  \<^verbatim>\<open>Bottleneck\<close> presets) and output width 1000. Whatever the loader does, the model
  returned for \<open>num_classes\<close> is the model returned for 1000 classes with only the
  head replaced, by a fresh linear layer from \<open>512 * expansion\<close> to \<open>num_classes\<close>:
  the stem and the four stages are the same; for 1000 classes the head is not replaced.
  When the call for 1000 classes raises, so does the call for \<open>num_classes\<close>.
\<close>

theorem preset_head_replacement:
  "\<forall>(preset, blk, width) \<in>
       {(resnet18, BasicBlock, 512), (resnet34, BasicBlock, 512), (resnet50, Bottleneck, 2048),
        (resnet101, Bottleneck, 2048), (resnet152, Bottleneck, 2048)}.
     512 * expansion blk = width
     \<and> (\<exists>m0. preset load False 1000 = Inr m0 \<and> block m0 = blk
            \<and> fc m0 = Linear_new width 1000)
     \<and> (\<forall>m0. preset load pretrained 1000 = Inr m0 \<longrightarrow>
            (\<exists>m. preset load pretrained nc = Inr m
               \<and> m = (if nc \<noteq> 1000
                      then m0\<lparr>fc := Linear_new (512 * expansion (block m0)) nc\<rparr> else m0)
               \<and> conv1 m = conv1 m0 \<and> bn1 m = bn1 m0
               \<and> layer1 m = layer1 m0 \<and> layer2 m = layer2 m0
               \<and> layer3 m = layer3 m0 \<and> layer4 m = layer4 m0
               \<and> fc m = (if nc \<noteq> 1000
                         then Linear_new (512 * expansion (block m0)) nc else fc m0)
               \<and> (nc \<noteq> 1000 \<and> block m0 = blk \<longrightarrow>
                    in_features (fc m) = width \<and> out_features (fc m) = nc)))
     \<and> (\<forall>e. preset load pretrained 1000 = Inl e \<longrightarrow> preset load pretrained nc = Inl e)"
proof -
  note s18 = preset_shape[of resnet18 BasicBlock "[2, 2, 2, 2]" _ load pretrained nc,
      OF resnet18_def ResNet_init_BasicBlock_ok]
  note s34 = preset_shape[of resnet34 BasicBlock "[3, 4, 6, 3]" _ load pretrained nc,
      OF resnet34_def ResNet_init_BasicBlock_ok]
  note s50 = preset_shape[of resnet50 Bottleneck "[3, 4, 6, 3]" _ load pretrained nc,
      OF resnet50_def ResNet_init_Bottleneck_ok]
  note s101 = preset_shape[of resnet101 Bottleneck "[3, 4, 23, 3]" _ load pretrained nc,
      OF resnet101_def ResNet_init_Bottleneck_ok]
  note s152 = preset_shape[of resnet152 Bottleneck "[3, 8, 36, 3]" _ load pretrained nc,
      OF resnet152_def ResNet_init_Bottleneck_ok]
  have e: "512 * expansion BasicBlock = 512" "512 * expansion Bottleneck = 2048" by simp_all
  show ?thesis
    apply (simp only: ball_simps Ball_def_raw insert_iff empty_iff)
    using s18 s34 s50 s101 s152 e
    by (auto simp only:)
qed

theorem preset_head_replacement_witness:
  "(\<exists>m0 m. resnet50 (\<lambda>url model. Inr model) False 1000 = Inr m0
      \<and> resnet50 (\<lambda>url model. Inr model) False 10 = Inr m
      \<and> fc m0 = Linear_new 2048 1000 \<and> fc m = Linear_new 2048 10
      \<and> conv1 m = conv1 m0 \<and> bn1 m = bn1 m0 \<and> layer1 m = layer1 m0
      \<and> layer2 m = layer2 m0 \<and> layer3 m = layer3 m0 \<and> layer4 m = layer4 m0)
   \<and> (\<exists>m0 m. resnet18 (\<lambda>url model. Inr model) False 1000 = Inr m0
      \<and> resnet18 (\<lambda>url model. Inr model) False 10 = Inr m
      \<and> fc m0 = Linear_new 512 1000 \<and> fc m = Linear_new 512 10
      \<and> conv1 m = conv1 m0 \<and> bn1 m = bn1 m0 \<and> layer1 m = layer1 m0
      \<and> layer2 m = layer2 m0 \<and> layer3 m = layer3 m0 \<and> layer4 m = layer4 m0)"
proof -
  note t = preset_head_replacement [of "\<lambda>url model. Inr model" False 10]
  from t obtain a where a: "resnet50 (\<lambda>url model. Inr model) False 1000 = Inr a"
    "block a = Bottleneck" "fc a = Linear_new 2048 1000"
    by auto
  from t obtain b where b: "resnet18 (\<lambda>url model. Inr model) False 1000 = Inr b"
    "block b = BasicBlock" "fc b = Linear_new 512 1000"
    by auto
  from t a have "resnet50 (\<lambda>url model. Inr model) False 10
      = Inr (a\<lparr>fc := Linear_new (512 * expansion (block a)) 10\<rparr>)"
    by auto
  moreover from t b have "resnet18 (\<lambda>url model. Inr model) False 10
      = Inr (b\<lparr>fc := Linear_new (512 * expansion (block b)) 10\<rparr>)"
    by auto
  ultimately show ?thesis using a b by simp
qed

text \<open>
  C5. Whenever a \<^verbatim>\<open>Bottleneck\<close> is constructed, its 1x1-expand stage outputs
  \<open>planes * 4\<close> channels. For positive \<open>planes\<close>, \<open>base_width\<close> and \<open>groups\<close>,
  every block that is constructed, the weight of its 3x3 convolution being a tensor the
  library can create, has the width \<open>planes * base_width div 64 * groups\<close> in its
  1x1-reduce and 3x3 stages: the floor of the exact quotient, times the groups. The
  float product is exact below \<open>2 ^ 53\<close>, and a product of \<open>2 ^ 53\<close> or more gives
  a width of at least \<open>2 ^ 46\<close> per group, whose 3x3 weight no tensor can hold. For
  positive \<open>planes\<close> and \<open>base_width\<close> of product below \<open>2 ^ 53\<close> the constructor
  raises nothing.
\<close>

theorem Bottleneck_channels:
  "(\<forall>b. Bottleneck_init i planes s d g w dil = Inr b \<longrightarrow>
        out_channels (blk_conv3 b) = planes * 4 \<and> num_features (blk_bn3 b) = planes * 4)
   \<and> (\<forall>b. Bottleneck_init i planes s d g w dil = Inr b
           \<and> 0 < planes \<and> 0 < w \<and> 0 < g
           \<and> Conv2d_weight_numel (blk_conv2 b) < 2 ^ 63 \<longrightarrow>
        out_channels (blk_conv1 b) = planes * w div 64 * g
        \<and> in_channels (blk_conv2 b) = planes * w div 64 * g
        \<and> out_channels (blk_conv2 b) = planes * w div 64 * g
        \<and> in_channels (blk_conv3 b) = planes * w div 64 * g
        \<and> out_channels (blk_conv3 b) = planes * 4)
   \<and> (0 < planes \<and> 0 < w \<and> planes * w < 2 ^ 53 \<longrightarrow>
        (\<exists>b. Bottleneck_init i planes s d g w dil = Inr b
           \<and> out_channels (blk_conv1 b) = planes * w div 64 * g
           \<and> in_channels (blk_conv2 b) = planes * w div 64 * g
           \<and> out_channels (blk_conv2 b) = planes * w div 64 * g
           \<and> in_channels (blk_conv3 b) = planes * w div 64 * g
           \<and> out_channels (blk_conv3 b) = planes * 4))"
proof (intro conjI allI impI)
  fix b assume "Bottleneck_init i planes s d g w dil = Inr b"
  then show "out_channels (blk_conv3 b) = planes * 4"
    and "num_features (blk_bn3 b) = planes * 4"
    by (auto simp: Bottleneck_init_def conv1x1_def Conv2d_new_def BatchNorm2d_new_def
          split: sum.splits)
next
  fix b
  assume a: "Bottleneck_init i planes s d g w dil = Inr b
           \<and> 0 < planes \<and> 0 < w \<and> 0 < g
           \<and> Conv2d_weight_numel (blk_conv2 b) < 2 ^ 63"
  then have init: "Bottleneck_init i planes s d g w dil = Inr b"
    and pos: "0 < planes" "0 < w" "0 < g"
    and size: "Conv2d_weight_numel (blk_conv2 b) < 2 ^ 63" by simp_all
  note small = Bottleneck_init_small[OF init pos size]
  from Bottleneck_init_exact[OF pos(1,2) small, of i s d g dil] init
  show "out_channels (blk_conv1 b) = planes * w div 64 * g"
    and "in_channels (blk_conv2 b) = planes * w div 64 * g"
    and "out_channels (blk_conv2 b) = planes * w div 64 * g"
    and "in_channels (blk_conv3 b) = planes * w div 64 * g"
    and "out_channels (blk_conv3 b) = planes * 4"
    by (auto simp add: conv1x1_def conv3x3_def Conv2d_new_def)
next
  assume "0 < planes \<and> 0 < w \<and> planes * w < 2 ^ 53"
  then have "0 < planes" "0 < w" "planes * w < 2 ^ 53" by simp_all
  from Bottleneck_init_exact[OF this, of i s d g dil]
  show "\<exists>b. Bottleneck_init i planes s d g w dil = Inr b
           \<and> out_channels (blk_conv1 b) = planes * w div 64 * g
           \<and> in_channels (blk_conv2 b) = planes * w div 64 * g
           \<and> out_channels (blk_conv2 b) = planes * w div 64 * g
           \<and> in_channels (blk_conv3 b) = planes * w div 64 * g
           \<and> out_channels (blk_conv3 b) = planes * 4"
    by (simp add: conv1x1_def conv3x3_def Conv2d_new_def)
qed

theorem Bottleneck_channels_witness:
  "(\<exists>b. Bottleneck_init 256 128 2 None 1 64 1 = Inr b
      \<and> Conv2d_weight_numel (blk_conv2 b) = 147456
      \<and> out_channels (blk_conv1 b) = 128 \<and> out_channels (blk_conv2 b) = 128
      \<and> out_channels (blk_conv3 b) = 512)
   \<and> (\<exists>b. Bottleneck_init 256 128 2 None 32 4 1 = Inr b
      \<and> Conv2d_weight_numel (blk_conv2 b) = 18432
      \<and> out_channels (blk_conv1 b) = 256 \<and> out_channels (blk_conv2 b) = 256
      \<and> out_channels (blk_conv3 b) = 512)"
proof -
  obtain b1 where b1: "Bottleneck_init 256 128 2 None 1 64 1 = Inr b1"
    and n1: "Conv2d_weight_numel (blk_conv2 b1) = 147456"
    using Bottleneck_init_exact[of 128 64 256 2 None 1 1]
    by (simp add: Conv2d_weight_numel_def conv3x3_def Conv2d_new_def)
  obtain b2 where b2: "Bottleneck_init 256 128 2 None 32 4 1 = Inr b2"
    and n2: "Conv2d_weight_numel (blk_conv2 b2) = 18432"
    using Bottleneck_init_exact[of 128 4 256 2 None 32 1]
    by (simp add: Conv2d_weight_numel_def conv3x3_def Conv2d_new_def)
  from Bottleneck_channels [of 256 128 2 None 1 64 1]
    Bottleneck_channels [of 256 128 2 None 32 4 1] b1 n1 b2 n2
  show ?thesis by auto
qed




end
